theory Spec2Isabelle
  imports Main "HOL-Library.Sublist"
begin

section \<open>JSON values and the JavaScript operations the tools apply to them\<close>

text \<open>
  Every value the tools handle comes out of \<open>JSON.parse\<close> (an upstream body, or the
  argument object of a JSON-RPC call), so a JavaScript value is a JSON value or
  \<open>undefined\<close>. Objects are association lists in property order, read with
  \<open>map_of\<close>. Numbers are the integers (ids, counts and status codes are all the API
  sends); strings are byte strings in UTF-8.
\<close>

datatype json =
    JNull
  | JBool bool
  | JNum int
  | JStr string
  | JArr "json list"
  | JObj "(string \<times> json) list"

text \<open>\<open>None\<close> is \<open>undefined\<close>.\<close>

type_synonym jsval = "json option"

text \<open>
  What an \<open>async\<close> function can reject with here: a \<open>TypeError\<close> raised by the
  language (a property read on \<open>null\<close>, a spread of something that is not iterable),
  or the rejection of the promise \<open>fetch\<close> returned.
\<close>

datatype js_error = TypeError | FetchFailed

definition NL :: string where
  "NL = [CHR 0x0A]"

definition TAB :: string where
  "TAB = [CHR 0x09]"

fun intercalate :: "'a list \<Rightarrow> 'a list list \<Rightarrow> 'a list" where
  "intercalate sep [] = []"
| "intercalate sep [x] = x"
| "intercalate sep (x # y # ys) = x @ sep @ intercalate sep (y # ys)"

subsection \<open>Truthiness, property reads, \<open>??\<close> and \<open>||\<close>\<close>

fun truthy :: "jsval \<Rightarrow> bool" where
  "truthy None = False"
| "truthy (Some JNull) = False"
| "truthy (Some (JBool b)) = b"
| "truthy (Some (JNum n)) = (n \<noteq> 0)"
| "truthy (Some (JStr s)) = (s \<noteq> [])"
| "truthy (Some (JArr xs)) = True"
| "truthy (Some (JObj kvs)) = True"

text \<open>
  \<open>v.k\<close> for the property names the tools read (\<open>data\<close>, \<open>items\<close>, \<open>message\<close>,
  \<open>errors\<close>, \<open>state\<close>, ...): a \<open>TypeError\<close> on \<open>null\<close> and \<open>undefined\<close>, the own
  property on an object, \<open>undefined\<close> on a number, boolean, string or array (none of
  these names is on a prototype).
\<close>

fun get_prop :: "jsval \<Rightarrow> string \<Rightarrow> js_error + jsval" where
  "get_prop None k = Inl TypeError"
| "get_prop (Some JNull) k = Inl TypeError"
| "get_prop (Some (JObj kvs)) k = Inr (map_of kvs k)"
| "get_prop (Some (JBool b)) k = Inr None"
| "get_prop (Some (JNum n)) k = Inr None"
| "get_prop (Some (JStr s)) k = Inr None"
| "get_prop (Some (JArr xs)) k = Inr None"

text \<open>\<open>v?.k\<close>: \<open>undefined\<close> when \<open>v\<close> is \<open>null\<close> or \<open>undefined\<close>.\<close>

fun opt_prop :: "jsval \<Rightarrow> string \<Rightarrow> jsval" where
  "opt_prop (Some (JObj kvs)) k = map_of kvs k"
| "opt_prop v k = None"

text \<open>\<open>a ?? b\<close> and \<open>a || b\<close>.\<close>

fun nullish :: "jsval \<Rightarrow> jsval \<Rightarrow> jsval" where
  "nullish None b = b"
| "nullish (Some JNull) b = b"
| "nullish (Some a) b = Some a"

definition or_else :: "jsval \<Rightarrow> jsval \<Rightarrow> jsval" where
  "or_else a b = (if truthy a then a else b)"

fun isArray :: "jsval \<Rightarrow> bool" where
  "isArray (Some (JArr xs)) = True"
| "isArray v = False"

text \<open>\<open>xs[0]\<close> on an array.\<close>

fun index0 :: "jsval \<Rightarrow> jsval" where
  "index0 (Some (JArr (x # xs))) = Some x"
| "index0 v = None"

subsection \<open>Conversion to string in a template literal\<close>

text \<open>The digit of a number below sixteen.\<close>

definition digit :: "nat \<Rightarrow> char" where
  "digit n = ''0123456789abcdef'' ! n"

fun show_nat :: "nat \<Rightarrow> string" where
  "show_nat n =
     (if n < 10 then [digit n]
      else show_nat (n div 10) @ [digit (n mod 10)])"

declare show_nat.simps [simp del]

definition show_int :: "int \<Rightarrow> string" where
  "show_int i = (if i < 0 then ''-'' @ show_nat (nat (- i)) else show_nat (nat i))"

text \<open>
  \<open>String(v)\<close>: an array is its elements joined by commas, with \<open>null\<close> as the empty
  string (\<open>Array.prototype.join\<close>); an object is \<open>[object Object]\<close>.
\<close>

fun to_string :: "json \<Rightarrow> string" where
  "to_string JNull = ''null''"
| "to_string (JBool b) = (if b then ''true'' else ''false'')"
| "to_string (JNum n) = show_int n"
| "to_string (JStr s) = s"
| "to_string (JArr xs) =
     intercalate '','' (map (\<lambda>x. if x = JNull then [] else to_string x) xs)"
| "to_string (JObj kvs) = ''[object Object]''"

definition template :: "jsval \<Rightarrow> string" where
  "template v = (case v of None \<Rightarrow> ''undefined'' | Some j \<Rightarrow> to_string j)"

subsection \<open>Spread and \<open>Set\<close>\<close>

text \<open>
  A string iterates by code point: in UTF-8, a byte that is not a continuation byte
  (\<open>0x80\<close> to \<open>0xBF\<close>) together with the continuation bytes after it.
\<close>

definition continuation :: "char \<Rightarrow> bool" where
  "continuation c = (128 \<le> (of_char c :: nat) \<and> (of_char c :: nat) < 192)"

function code_points :: "string \<Rightarrow> string list" where
  "code_points [] = []"
| "code_points (c # cs) =
     (c # takeWhile continuation cs) # code_points (dropWhile continuation cs)"
  by pat_completeness auto
termination
  by (relation "measure length") (auto simp: length_dropWhile_le less_Suc_eq_le)

text \<open>\<open>[...v]\<close>: arrays and strings are iterable, nothing else of JSON is.\<close>

fun spread :: "jsval \<Rightarrow> js_error + json list" where
  "spread (Some (JArr xs)) = Inr xs"
| "spread (Some (JStr s)) = Inr (map JStr (code_points s))"
| "spread v = Inl TypeError"

text \<open>
  A \<open>Set\<close> holds its members in insertion order and compares them with SameValueZero:
  primitives by value, arrays and objects by identity, and two parsed arrays or
  objects are never the same object.
\<close>

fun is_primitive :: "json \<Rightarrow> bool" where
  "is_primitive (JArr xs) = False"
| "is_primitive (JObj kvs) = False"
| "is_primitive j = True"

definition Set_add :: "json list \<Rightarrow> json \<Rightarrow> json list" where
  "Set_add s x = (if is_primitive x \<and> x \<in> set s then s else s @ [x])"

text \<open>\<open>[...new Set(xs)]\<close>.\<close>

definition new_Set :: "json list \<Rightarrow> json list" where
  "new_Set xs = foldl Set_add [] xs"

subsection \<open>\<open>JSON.stringify(value, null, 2)\<close>\<close>

definition escape_char :: "char \<Rightarrow> string" where
  "escape_char c =
     (if c = CHR 0x22 then [CHR 0x5C, CHR 0x22]
      else if c = CHR 0x5C then [CHR 0x5C, CHR 0x5C]
      else if c = CHR 0x08 then [CHR 0x5C, CHR ''b'']
      else if c = CHR 0x0C then [CHR 0x5C, CHR ''f'']
      else if c = CHR 0x0A then [CHR 0x5C, CHR ''n'']
      else if c = CHR 0x0D then [CHR 0x5C, CHR ''r'']
      else if c = CHR 0x09 then [CHR 0x5C, CHR ''t'']
      else if (of_char c :: nat) < 32
        then [CHR 0x5C, CHR ''u'', CHR ''0'', CHR ''0'',
              digit (of_char c div 16), digit (of_char c mod 16)]
      else [c])"

definition quote :: "string \<Rightarrow> string" where
  "quote s = [CHR 0x22] @ concat (map escape_char s) @ [CHR 0x22]"

definition spaces :: "nat \<Rightarrow> string" where
  "spaces n = replicate n CHR '' ''"

text \<open>The first argument is the indentation of the line the value starts on.\<close>

fun stringify :: "nat \<Rightarrow> json \<Rightarrow> string" where
  "stringify ind JNull = ''null''"
| "stringify ind (JBool b) = (if b then ''true'' else ''false'')"
| "stringify ind (JNum n) = show_int n"
| "stringify ind (JStr s) = quote s"
| "stringify ind (JArr xs) =
     (if xs = [] then ''[]''
      else ''['' @ NL
        @ intercalate ('','' @ NL)
            (map (\<lambda>x. spaces (ind + 2) @ stringify (ind + 2) x) xs)
        @ NL @ spaces ind @ '']'')"
| "stringify ind (JObj kvs) =
     (if kvs = [] then ''{}''
      else ''{'' @ NL
        @ intercalate ('','' @ NL)
            (map (\<lambda>(k, v). spaces (ind + 2) @ quote k @ '': '' @ stringify (ind + 2) v) kvs)
        @ NL @ spaces ind @ ''}'')"

text \<open>\<open>JSON.stringify(undefined, null, 2)\<close> is \<open>undefined\<close>.\<close>

definition JSON_stringify :: "jsval \<Rightarrow> string option" where
  "JSON_stringify v = map_option (stringify 0) v"

definition template_str :: "string option \<Rightarrow> string" where
  "template_str s = (case s of None \<Rightarrow> ''undefined'' | Some t \<Rightarrow> t)"

text \<open>
  An object literal as \<open>JSON.stringify\<close> sends it: a property whose value is
  \<open>undefined\<close> is left out.
\<close>

fun object_literal :: "(string \<times> jsval) list \<Rightarrow> json" where
  "object_literal kvs =
     JObj (concat (map (\<lambda>(k, v). case v of None \<Rightarrow> [] | Some j \<Rightarrow> [(k, j)]) kvs))"

text \<open>Sequencing of steps that may throw.\<close>

definition and_then :: "js_error + 'a \<Rightarrow> ('a \<Rightarrow> js_error + 'b) \<Rightarrow> js_error + 'b" where
  "and_then m f = (case m of Inl e \<Rightarrow> Inl e | Inr x \<Rightarrow> f x)"

text \<open>
  \<open>xs.includes(v)\<close>: on an array, SameValueZero against each element; on a string, the
  substring test against \<open>String(v)\<close>.
\<close>

fun js_includes :: "jsval \<Rightarrow> jsval \<Rightarrow> js_error + bool" where
  "js_includes (Some (JArr xs)) v =
     Inr (case v of None \<Rightarrow> False | Some j \<Rightarrow> is_primitive j \<and> j \<in> set xs)"
| "js_includes (Some (JStr s)) v = Inr (sublist (template v) s)"
| "js_includes xs v = Inl TypeError"

section \<open>The schema validator\<close>

text \<open>
  The shapes the tools declare with the schema library, and its \<open>safeParse\<close>: every
  mismatch is collected as an issue (code, expected type, received type, path,
  message); an object keeps only its declared keys, in the order of the declaration.
\<close>

datatype schema =
    ZString
  | ZNumber
  | ZBoolean
  | ZArray schema
  | ZObject "(string \<times> schema) list"
  | ZOptional schema
  | ZNullable schema
  | ZEnum "string list"
  | ZDescribe schema string

fun parsed_type :: "jsval \<Rightarrow> string" where
  "parsed_type None = ''undefined''"
| "parsed_type (Some JNull) = ''null''"
| "parsed_type (Some (JBool b)) = ''boolean''"
| "parsed_type (Some (JNum n)) = ''number''"
| "parsed_type (Some (JStr s)) = ''string''"
| "parsed_type (Some (JArr xs)) = ''array''"
| "parsed_type (Some (JObj kvs)) = ''object''"

definition invalid_type :: "string \<Rightarrow> jsval \<Rightarrow> json list \<Rightarrow> json" where
  "invalid_type expected v path =
     JObj [(''code'', JStr ''invalid_type''),
           (''expected'', JStr expected),
           (''received'', JStr (parsed_type v)),
           (''path'', JArr path),
           (''message'', JStr (if v = None then ''Required''
              else ''Expected '' @ expected @ '', received '' @ parsed_type v))]"

definition join_values :: "string list \<Rightarrow> string" where
  "join_values vs = intercalate '' | '' (map (\<lambda>v. [CHR 0x27] @ v @ [CHR 0x27]) vs)"

definition invalid_enum_value :: "string list \<Rightarrow> string \<Rightarrow> json list \<Rightarrow> json" where
  "invalid_enum_value options s path =
     JObj [(''received'', JStr s),
           (''code'', JStr ''invalid_enum_value''),
           (''options'', JArr (map JStr options)),
           (''path'', JArr path),
           (''message'', JStr (''Invalid enum value. Expected '' @ join_values options
              @ '', received '' @ [CHR 0x27] @ s @ [CHR 0x27]))]"

text \<open>
  \<open>parse s path v\<close> returns the issues and the parsed value; the value counts only
  when there is no issue.
\<close>

fun parse :: "schema \<Rightarrow> json list \<Rightarrow> jsval \<Rightarrow> json list \<times> jsval" where
  "parse ZString path v =
     (case v of Some (JStr s) \<Rightarrow> ([], v) | _ \<Rightarrow> ([invalid_type ''string'' v path], None))"
| "parse ZNumber path v =
     (case v of Some (JNum n) \<Rightarrow> ([], v) | _ \<Rightarrow> ([invalid_type ''number'' v path], None))"
| "parse ZBoolean path v =
     (case v of Some (JBool b) \<Rightarrow> ([], v) | _ \<Rightarrow> ([invalid_type ''boolean'' v path], None))"
| "parse (ZArray s) path v =
     (case v of
        Some (JArr xs) \<Rightarrow>
          (let rs = map (\<lambda>(i, x). parse s (path @ [JNum (int i)]) (Some x)) (enumerate 0 xs)
           in (concat (map fst rs),
               Some (JArr (concat (map (\<lambda>r. case snd r of None \<Rightarrow> [] | Some j \<Rightarrow> [j]) rs)))))
      | _ \<Rightarrow> ([invalid_type ''array'' v path], None))"
| "parse (ZObject shape) path v =
     (case v of
        Some (JObj kvs) \<Rightarrow>
          (let rs = map (\<lambda>(k, s). (k, parse s (path @ [JStr k]) (map_of kvs k))) shape
           in (concat (map (\<lambda>(k, r). fst r) rs),
               Some (object_literal (map (\<lambda>(k, r). (k, snd r)) rs))))
      | _ \<Rightarrow> ([invalid_type ''object'' v path], None))"
| "parse (ZOptional s) path v = (if v = None then ([], None) else parse s path v)"
| "parse (ZNullable s) path v = (if v = Some JNull then ([], v) else parse s path v)"
| "parse (ZEnum options) path v =
     (case v of
        Some (JStr s) \<Rightarrow>
          if s \<in> set options then ([], v) else ([invalid_enum_value options s path], None)
      | _ \<Rightarrow> ([invalid_type (join_values options) v path], None))"
| "parse (ZDescribe s d) path v = parse s path v"

definition safeParse :: "schema \<Rightarrow> jsval \<Rightarrow> json list + jsval" where
  "safeParse s v =
     (case parse s [] v of (issues, data) \<Rightarrow> if issues = [] then Inr data else Inl issues)"

text \<open>\<open>parsed.error.message\<close>: the issues, pretty-printed.\<close>

definition error_message :: "json list \<Rightarrow> string" where
  "error_message issues = stringify 0 (JArr issues)"

section \<open>The runtime: environment, clock and \<open>fetch\<close>\<close>

datatype http_method = GET | POST | PATCH

text \<open>
  A call of \<open>fetch\<close>: the URL and the fields of the init object. \<open>body\<close> is the
  object handed to \<open>JSON.stringify\<close>, as it is serialised.
\<close>

record request =
  url :: string
  "method" :: http_method
  headers :: "(string \<times> string) list"
  body :: "json option"

text \<open>
  A \<open>Response\<close>. \<open>res_json\<close> is what \<open>res.json()\<close> settles to: \<open>None\<close> when it
  rejects (the body is not JSON).
\<close>

record response =
  status :: nat
  statusText :: string
  res_json :: "json option"

text \<open>\<open>res.ok\<close>: the status is in the range 200 to 299.\<close>

definition ok :: "response \<Rightarrow> bool" where
  "ok res = (200 \<le> status res \<and> status res \<le> 299)"

datatype fetch_outcome = Rejected | Resolved response

text \<open>
  The upstream answers a request knowing the requests the same invocation made before
  it.
\<close>

type_synonym fetch_fn = "request list \<Rightarrow> request \<Rightarrow> fetch_outcome"

text \<open>
  \<open>env\<close> is \<open>process.env\<close>; \<open>fetch\<close> is \<open>globalThis.fetch\<close>, \<open>None\<close> when it is not
  there; \<open>now\<close> is the time value of \<open>new Date()\<close>, the reading of the clock in
  milliseconds since the epoch.
\<close>

record world =
  env :: "string \<Rightarrow> string option"
  fetch :: "fetch_fn option"
  now :: int

text \<open>\<open>process.env.AZION_API_TOKEN || process.env.AZION_TOKEN\<close>.\<close>

definition token :: "world \<Rightarrow> string option" where
  "token w =
     (case env w ''AZION_API_TOKEN'' of
        None \<Rightarrow> env w ''AZION_TOKEN''
      | Some a \<Rightarrow> if a \<noteq> [] then Some a else env w ''AZION_TOKEN'')"

subsection \<open>\<open>Date.prototype.toISOString\<close>\<close>

definition pad :: "nat \<Rightarrow> nat \<Rightarrow> string" where
  "pad width n = replicate (width - length (show_nat n)) CHR ''0'' @ show_nat n"

text \<open>Year, month and day of a day number counted from 1970-01-01.\<close>

definition civil_from_days :: "int \<Rightarrow> int \<times> int \<times> int" where
  "civil_from_days days =
     (let z = days + 719468;
          era = z div 146097;
          doe = z mod 146097;
          yoe = (doe - doe div 1460 + doe div 36524 - doe div 146096) div 365;
          doy = doe - (365 * yoe + yoe div 4 - yoe div 100);
          mp = (5 * doy + 2) div 153;
          d = doy - (153 * mp + 2) div 5 + 1;
          m = (if mp < 10 then mp + 3 else mp - 9);
          y = yoe + era * 400
      in (if m \<le> 2 then y + 1 else y, m, d))"

definition show_year :: "int \<Rightarrow> string" where
  "show_year y =
     (if 0 \<le> y \<and> y \<le> 9999 then pad 4 (nat y)
      else (if y < 0 then ''-'' else ''+'') @ pad 6 (nat \<bar>y\<bar>))"

definition toISOString :: "int \<Rightarrow> string" where
  "toISOString t =
     (let ms = t mod 86400000
      in case civil_from_days (t div 86400000) of
           (y, m, d) \<Rightarrow>
             show_year y @ ''-'' @ pad 2 (nat m) @ ''-'' @ pad 2 (nat d) @ ''T''
             @ pad 2 (nat (ms div 3600000)) @ '':''
             @ pad 2 (nat (ms div 60000 mod 60)) @ '':''
             @ pad 2 (nat (ms div 1000 mod 60)) @ ''.''
             @ pad 3 (nat (ms mod 1000)) @ ''Z'')"

section \<open>Tool replies\<close>

record content_item =
  type :: string
  "text" :: string

record ToolResponse =
  content :: "content_item list"

definition text_reply :: "string \<Rightarrow> ToolResponse" where
  "text_reply t = \<lparr>content = [\<lparr>type = ''text'', text = t\<rparr>]\<rparr>"

text \<open>
  What an invocation of \<open>execute\<close> does: the requests it passed to \<open>fetch\<close>, in order,
  and the reply its promise resolves to or the error it rejects with.
\<close>

type_synonym outcome = "request list \<times> (js_error + ToolResponse)"

record McpTool =
  name :: string
  description :: string
  inputSchema :: "(string \<times> schema) list"
  execute :: "world \<Rightarrow> (string \<times> json) list \<Rightarrow> outcome"

definition missing_token_text :: string where
  "missing_token_text = ''Missing AZION_API_TOKEN (or AZION_TOKEN) in environment. Please create a .env with AZION_API_TOKEN=your_token and ensure your runner loads it.''"

definition no_fetch_text :: string where
  "no_fetch_text = ''Fetch API is not available in this runtime. Please run on Node 18+ or provide a fetch polyfill.''"

text \<open>\<open>`HTTP ${res.status} ${res.statusText}`\<close>.\<close>

definition http_status_line :: "response \<Rightarrow> string" where
  "http_status_line res = ''HTTP '' @ show_nat (status res) @ '' '' @ statusText res"

section \<open>The tools\<close>

subsection \<open>\<open>createListHttpEventsTool\<close>\<close>

definition graphql_query :: string where
  "graphql_query =
     intercalate NL
       ['''',
        ''query httpEvents($tsRange_begin: DateTime!, $tsRange_end: DateTime!) {'',
        TAB @ ''httpEvents ('',
        TAB @ TAB @ ''limit: 1000'',
        TAB @ TAB @ ''orderBy: [ts_DESC]'',
        TAB @ TAB @ ''filter: {'',
        TAB @ TAB @ TAB @ ''tsRange: { begin: $tsRange_begin, end: $tsRange_end }'',
        TAB @ TAB @ ''}'',
        TAB @ '') {'',
        ''    ts'',
        TAB @ TAB @ ''configurationId'',
        TAB @ TAB @ ''host'',
        TAB @ TAB @ ''requestId'',
        TAB @ TAB @ ''httpUserAgent'',
        TAB @ TAB @ ''requestMethod'',
        TAB @ TAB @ ''status'',
        TAB @ TAB @ ''upstreamBytesSent'',
        ''    upstreamCacheStatus'',
        TAB @ TAB @ ''sslProtocol'',
        TAB @ TAB @ ''wafLearning'',
        TAB @ TAB @ ''requestTime'',
        TAB @ TAB @ ''serverProtocol'',
        ''    upstreamAddr'',
        TAB @ TAB @ ''httpReferer'',
        TAB @ TAB @ ''remoteAddress'',
        TAB @ TAB @ ''wafMatch'',
        ''    wafScore'',
        ''    wafBlock'',
        TAB @ TAB @ ''serverPort'',
        TAB @ TAB @ ''sslCipher'',
        TAB @ TAB @ ''serverAddr'',
        TAB @ TAB @ ''scheme'',
        ''    geolocAsn'',
        ''    geolocRegionName'',
        ''    geolocCountryName'',
        TAB @ ''}'',
        ''}'',
        '''']"

definition HttpEventSchema :: schema where
  "HttpEventSchema =
     ZObject
      [(''ts'', ZString),
       (''configurationId'', ZOptional (ZNullable ZString)),
       (''host'', ZOptional (ZNullable ZString)),
       (''requestId'', ZOptional (ZNullable ZString)),
       (''httpUserAgent'', ZOptional (ZNullable ZString)),
       (''requestMethod'', ZOptional (ZNullable ZString)),
       (''status'', ZOptional (ZNullable ZNumber)),
       (''upstreamBytesSent'', ZOptional (ZNullable ZNumber)),
       (''upstreamCacheStatus'', ZOptional (ZNullable ZString)),
       (''sslProtocol'', ZOptional (ZNullable ZString)),
       (''wafLearning'', ZOptional (ZNullable ZString)),
       (''requestTime'', ZOptional (ZNullable ZString)),
       (''serverProtocol'', ZOptional (ZNullable ZString)),
       (''upstreamAddr'', ZOptional (ZNullable ZString)),
       (''httpReferer'', ZOptional (ZNullable ZString)),
       (''remoteAddress'', ZOptional (ZNullable ZString)),
       (''wafMatch'', ZOptional (ZNullable ZString)),
       (''wafScore'', ZOptional (ZNullable ZString)),
       (''wafBlock'', ZOptional (ZNullable ZString)),
       (''serverPort'', ZOptional (ZNullable ZString)),
       (''sslCipher'', ZOptional (ZNullable ZString)),
       (''serverAddr'', ZOptional (ZNullable ZString)),
       (''scheme'', ZOptional (ZNullable ZString)),
       (''geolocAsn'', ZOptional (ZNullable ZString)),
       (''geolocRegionName'', ZOptional (ZNullable ZString)),
       (''geolocCountryName'', ZOptional (ZNullable ZString))]"

definition HttpEventsResponseSchema :: schema where
  "HttpEventsResponseSchema =
     ZObject [(''data'', ZObject [(''httpEvents'', ZArray HttpEventSchema)])]"

definition unexpected_format :: "json list \<Rightarrow> ToolResponse" where
  "unexpected_format issues =
     text_reply (''Unexpected response format from Azion API: '' @ error_message issues)"

text \<open>The code after \<open>await fetchFn(BASE_URL, ...)\<close>.\<close>

definition http_events_respond :: "jsval \<Rightarrow> jsval \<Rightarrow> response \<Rightarrow> js_error + ToolResponse" where
  "http_events_respond begin' end' res =
     (let json = (case res_json res of
                    None \<Rightarrow> JObj [(''errors'',
                      JArr [JObj [(''message'', JStr ''Invalid JSON response from Azion API'')]])]
                  | Some j \<Rightarrow> j)
      in if \<not> ok res then
           (let errors = opt_prop (Some json) ''errors'';
                message =
                  (if truthy (Some json) \<and> truthy errors \<and> isArray errors
                      \<and> truthy (opt_prop (index0 errors) ''message'')
                   then template (opt_prop (index0 errors) ''message'')
                   else http_status_line res)
            in Inr (text_reply (''Azion GraphQL request failed: '' @ message)))
         else
           (case safeParse HttpEventsResponseSchema (Some json) of
              Inl issues \<Rightarrow> Inr (unexpected_format issues)
            | Inr parsed_data \<Rightarrow>
                and_then (get_prop parsed_data ''data'') (\<lambda>d.
                and_then (get_prop d ''httpEvents'') (\<lambda>events.
                  (let header = ''HTTP Events from '' @ template begin' @ '' to '' @ template end';
                       prettyJson = JSON_stringify events
                   in Inr (text_reply
                        (header @ NL @ NL @ ''Raw data:'' @ NL @ template_str prettyJson)))))))"

definition http_events_request :: "string \<Rightarrow> jsval \<Rightarrow> jsval \<Rightarrow> request" where
  "http_events_request tok begin' end' =
     \<lparr>url = ''https://api-origin.azionapi.net/events/graphql'',
      method = POST,
      headers = [(''content-type'', ''application/json''),
                 (''authorization'', ''Token '' @ tok)],
      body = Some (object_literal
        [(''query'', Some (JStr graphql_query)),
         (''variables'', Some (object_literal
            [(''tsRange_begin'', begin'), (''tsRange_end'', end')]))])\<rparr>"

text \<open>
  \<open>now.toISOString()\<close> and \<open>new Date(now.getTime() - 5 * 60 * 1000).toISOString()\<close>,
  for the one \<open>now = new Date()\<close> of the invocation.
\<close>

definition defaultEnd :: "world \<Rightarrow> string" where
  "defaultEnd w = toISOString (now w)"

definition defaultBegin :: "world \<Rightarrow> string" where
  "defaultBegin w = toISOString (now w - 5 * 60 * 1000)"

definition http_events_execute :: "world \<Rightarrow> (string \<times> json) list \<Rightarrow> outcome" where
  "http_events_execute w args =
     (let begin' = nullish (map_of args ''begin'') (Some (JStr (defaultBegin w)));
          end' = nullish (map_of args ''end'') (Some (JStr (defaultEnd w)))
      in case token w of
           None \<Rightarrow> ([], Inr (text_reply missing_token_text))
         | Some tok \<Rightarrow>
             if tok = [] then ([], Inr (text_reply missing_token_text))
             else
               (case fetch w of
                  None \<Rightarrow> ([], Inr (text_reply no_fetch_text))
                | Some fetchFn \<Rightarrow>
                    (let req = http_events_request tok begin' end'
                     in ([req],
                         case fetchFn [] req of
                           Rejected \<Rightarrow> Inl FetchFailed
                         | Resolved res \<Rightarrow> http_events_respond begin' end' res))))"

definition createListHttpEventsTool :: "string \<Rightarrow> string \<Rightarrow> McpTool" where
  "createListHttpEventsTool name' description' =
     \<lparr>name = name',
      description = description',
      inputSchema =
        [(''begin'', ZDescribe (ZOptional ZString)
            ''ISO 8601 UTC start datetime. Defaults to now-5min''),
         (''end'', ZDescribe (ZOptional ZString)
            ''ISO 8601 UTC end datetime. Defaults to now'')],
      execute = http_events_execute\<rparr>"

subsection \<open>\<open>createListNetworkListTool\<close>\<close>

text \<open>\<open>json.message || `HTTP ${res.status} ${res.statusText}`\<close>, in the failure reply.\<close>

definition request_failed :: "json \<Rightarrow> response \<Rightarrow> js_error + ToolResponse" where
  "request_failed json res =
     and_then (get_prop (Some json) ''message'') (\<lambda>m.
       Inr (text_reply (''Azion API request failed: ''
         @ template (or_else m (Some (JStr (http_status_line res)))))))"

definition ListResponseSchema :: schema where
  "ListResponseSchema =
     ZObject
      [(''count'', ZNumber),
       (''results'', ZArray (ZObject
          [(''id'', ZNumber),
           (''name'', ZString),
           (''type'', ZString),
           (''last_editor'', ZString),
           (''last_modified'', ZString),
           (''active'', ZBoolean)]))]"

definition list_respond :: "response \<Rightarrow> js_error + ToolResponse" where
  "list_respond res =
     (let json = (case res_json res of
                    None \<Rightarrow> JObj [(''message'',
                      JStr (''Invalid JSON response from Azion API {status: ''
                        @ show_nat (status res) @ ''}''))]
                  | Some j \<Rightarrow> j)
      in if \<not> ok res then request_failed json res
         else
           (case safeParse ListResponseSchema (Some json) of
              Inl issues \<Rightarrow> Inr (unexpected_format issues)
            | Inr parsed_data \<Rightarrow>
                and_then (get_prop parsed_data ''results'') (\<lambda>results.
                and_then (get_prop parsed_data ''count'') (\<lambda>count.
                  (let prettyJson = JSON_stringify results
                   in Inr (text_reply
                        (''Found '' @ template count @ '' network lists.'' @ NL @ NL
                         @ template_str prettyJson)))))))"

text \<open>
  \<open>url.toString()\<close> is the base URL with the query \<open>type=ip_cidr\<close> appended.
\<close>

definition list_request :: "string \<Rightarrow> request" where
  "list_request tok =
     \<lparr>url = ''https://edge-api.azion.net/workspace/api/network_lists'' @ ''?type=ip_cidr'',
      method = GET,
      headers = [(''Accept'', ''application/json''), (''Authorization'', ''Token '' @ tok)],
      body = None\<rparr>"

definition list_execute :: "world \<Rightarrow> (string \<times> json) list \<Rightarrow> outcome" where
  "list_execute w args =
     (case token w of
        None \<Rightarrow> ([], Inr (text_reply missing_token_text))
      | Some tok \<Rightarrow>
          if tok = [] then ([], Inr (text_reply missing_token_text))
          else
            (case fetch w of
               None \<Rightarrow> ([], Inr (text_reply no_fetch_text))
             | Some fetchFn \<Rightarrow>
                 (let req = list_request tok
                  in ([req],
                      case fetchFn [] req of
                        Rejected \<Rightarrow> Inl FetchFailed
                      | Resolved res \<Rightarrow> list_respond res))))"

definition createListNetworkListTool :: "string \<Rightarrow> string \<Rightarrow> McpTool" where
  "createListNetworkListTool name' description' =
     \<lparr>name = name',
      description = description',
      inputSchema = [],
      execute = list_execute\<rparr>"

subsection \<open>\<open>createGetNetworkListTool\<close>\<close>

definition NetworkListData :: schema where
  "NetworkListData =
     ZObject
      [(''id'', ZNumber),
       (''name'', ZString),
       (''type'', ZString),
       (''items'', ZArray ZString),
       (''last_editor'', ZString),
       (''last_modified'', ZString),
       (''active'', ZBoolean)]"

definition NetworkListSchema :: schema where
  "NetworkListSchema = ZObject [(''data'', NetworkListData)]"

definition invalid_json_message :: json where
  "invalid_json_message = JObj [(''message'', JStr ''Invalid JSON response from Azion API'')]"

definition network_list_url :: "(string \<times> json) list \<Rightarrow> string" where
  "network_list_url args =
     ''https://edge-api.azion.net/workspace/api/network_lists/''
     @ template (map_of args ''networkListId'')"

definition get_respond :: "(string \<times> json) list \<Rightarrow> response \<Rightarrow> js_error + ToolResponse" where
  "get_respond args res =
     (let json = (case res_json res of None \<Rightarrow> invalid_json_message | Some j \<Rightarrow> j)
      in if \<not> ok res then request_failed json res
         else
           (case safeParse NetworkListSchema (Some json) of
              Inl issues \<Rightarrow> Inr (unexpected_format issues)
            | Inr parsed_data \<Rightarrow>
                and_then (get_prop parsed_data ''data'') (\<lambda>networkList.
                and_then
                  (if truthy (map_of args ''checkIp'') then
                     and_then (get_prop networkList ''items'') (\<lambda>items.
                     and_then (js_includes items (map_of args ''checkIp'')) (\<lambda>ipExists.
                       Inr (NL @ NL @ ''IP Check: '' @ template (map_of args ''checkIp'') @ '' ''
                            @ (if ipExists then ''is already present'' else ''is NOT present'')
                            @ '' in the network list.'')))
                   else Inr []) (\<lambda>ipCheckResult.
                and_then (get_prop networkList ''id'') (\<lambda>id'.
                  (let prettyJson = JSON_stringify networkList
                   in Inr (text_reply
                        (''Network List Details (ID: '' @ template id' @ ''):'' @ NL @ NL
                         @ template_str prettyJson @ ipCheckResult))))))))"

definition get_request :: "string \<Rightarrow> (string \<times> json) list \<Rightarrow> request" where
  "get_request tok args =
     \<lparr>url = network_list_url args,
      method = GET,
      headers = [(''Accept'', ''application/json''), (''Authorization'', ''Token '' @ tok)],
      body = None\<rparr>"

definition get_execute :: "world \<Rightarrow> (string \<times> json) list \<Rightarrow> outcome" where
  "get_execute w args =
     (case token w of
        None \<Rightarrow> ([], Inr (text_reply missing_token_text))
      | Some tok \<Rightarrow>
          if tok = [] then ([], Inr (text_reply missing_token_text))
          else
            (case fetch w of
               None \<Rightarrow> ([], Inr (text_reply no_fetch_text))
             | Some fetchFn \<Rightarrow>
                 (let req = get_request tok args
                  in ([req],
                      case fetchFn [] req of
                        Rejected \<Rightarrow> Inl FetchFailed
                      | Resolved res \<Rightarrow> get_respond args res))))"

definition createGetNetworkListTool :: "string \<Rightarrow> string \<Rightarrow> McpTool" where
  "createGetNetworkListTool name' description' =
     \<lparr>name = name',
      description = description',
      inputSchema =
        [(''networkListId'', ZDescribe ZNumber ''The ID of the network list to retrieve.''),
         (''checkIp'', ZDescribe (ZOptional ZString)
            ''Optional IP address to check if it exists in the network list items.'')],
      execute = get_execute\<rparr>"

subsection \<open>\<open>createUpdateNetworkListTool\<close>\<close>

definition StateDataSchema :: schema where
  "StateDataSchema = ZObject [(''state'', ZString), (''data'', NetworkListData)]"

text \<open>
  The block \<open>if (!args.replaceAll) { ... }\<close>: the requests it makes and the value it
  leaves in \<open>finalItems\<close>, which starts as \<open>args.newItems\<close>.
\<close>

definition final_items ::
  "fetch_fn \<Rightarrow> string \<Rightarrow> (string \<times> json) list \<Rightarrow> request list \<times> (js_error + jsval)" where
  "final_items fetchFn tok args =
     (let finalItems = map_of args ''newItems''
      in if \<not> truthy (map_of args ''replaceAll'') then
           (let getReq = get_request tok args
            in ([getReq],
                case fetchFn [] getReq of
                  Rejected \<Rightarrow> Inl FetchFailed
                | Resolved getRes \<Rightarrow>
                    if ok getRes then
                      (let currentData = (case res_json getRes of None \<Rightarrow> JObj [] | Some j \<Rightarrow> j)
                       in and_then (get_prop (Some currentData) ''data'') (\<lambda>data.
                            if truthy data then
                              and_then (get_prop data ''items'') (\<lambda>existingItems.
                                if truthy existingItems then
                                  and_then (spread existingItems) (\<lambda>existing.
                                  and_then (spread (map_of args ''newItems'')) (\<lambda>new.
                                    (let combinedItems = existing @ new
                                     in Inr (Some (JArr (new_Set combinedItems))))))
                                else Inr finalItems)
                            else Inr finalItems))
                    else Inr finalItems))
         else ([], Inr finalItems))"

definition update_respond :: "response \<Rightarrow> js_error + ToolResponse" where
  "update_respond res =
     (let json = (case res_json res of None \<Rightarrow> invalid_json_message | Some j \<Rightarrow> j)
      in if \<not> ok res then request_failed json res
         else
           (case safeParse StateDataSchema (Some json) of
              Inl issues \<Rightarrow> Inr (unexpected_format issues)
            | Inr parsed_data \<Rightarrow>
                and_then (get_prop parsed_data ''data'') (\<lambda>data.
                and_then (get_prop parsed_data ''state'') (\<lambda>state.
                  (let prettyJson = JSON_stringify data
                   in Inr (text_reply
                        (''Successfully updated network list (State: '' @ template state @ '').''
                         @ NL @ NL @ template_str prettyJson)))))))"

definition patch_request :: "string \<Rightarrow> (string \<times> json) list \<Rightarrow> jsval \<Rightarrow> request" where
  "patch_request tok args finalItems =
     \<lparr>url = network_list_url args,
      method = PATCH,
      headers = [(''Accept'', ''application/json''),
                 (''Content-Type'', ''application/json''),
                 (''Authorization'', ''Token '' @ tok)],
      body = Some (object_literal [(''items'', finalItems)])\<rparr>"

definition update_execute :: "world \<Rightarrow> (string \<times> json) list \<Rightarrow> outcome" where
  "update_execute w args =
     (case token w of
        None \<Rightarrow> ([], Inr (text_reply missing_token_text))
      | Some tok \<Rightarrow>
          if tok = [] then ([], Inr (text_reply missing_token_text))
          else
            (case fetch w of
               None \<Rightarrow> ([], Inr (text_reply no_fetch_text))
             | Some fetchFn \<Rightarrow>
                 (case final_items fetchFn tok args of
                    (log, Inl e) \<Rightarrow> (log, Inl e)
                  | (log, Inr finalItems) \<Rightarrow>
                      (let req = patch_request tok args finalItems
                       in (log @ [req],
                           case fetchFn log req of
                             Rejected \<Rightarrow> Inl FetchFailed
                           | Resolved res \<Rightarrow> update_respond res)))))"

definition createUpdateNetworkListTool :: "string \<Rightarrow> string \<Rightarrow> McpTool" where
  "createUpdateNetworkListTool name' description' =
     \<lparr>name = name',
      description = description',
      inputSchema =
        [(''networkListId'', ZDescribe ZNumber ''The ID of the network list to update.''),
         (''newItems'', ZDescribe (ZArray ZString)
            ''Array of new IP addresses/CIDR blocks to add to the network list.''),
         (''replaceAll'', ZDescribe (ZOptional ZBoolean)
            ''If true, replaces all items. If false (default), adds to existing items.'')],
      execute = update_execute\<rparr>"

subsection \<open>\<open>createCreateNetworkListTool\<close>\<close>

definition create_respond :: "response \<Rightarrow> js_error + ToolResponse" where
  "create_respond res =
     (let json = (case res_json res of None \<Rightarrow> invalid_json_message | Some j \<Rightarrow> j)
      in if \<not> ok res then request_failed json res
         else
           (case safeParse StateDataSchema (Some json) of
              Inl issues \<Rightarrow> Inr (unexpected_format issues)
            | Inr parsed_data \<Rightarrow>
                and_then (get_prop parsed_data ''data'') (\<lambda>data.
                  (let prettyJson = JSON_stringify data
                   in Inr (text_reply
                        (''Successfully created network list.'' @ NL @ NL
                         @ template_str prettyJson))))))"

definition create_request :: "string \<Rightarrow> (string \<times> json) list \<Rightarrow> request" where
  "create_request tok args =
     \<lparr>url = ''https://edge-api.azion.net/workspace/api/network_lists'',
      method = POST,
      headers = [(''Accept'', ''application/json''),
                 (''Content-Type'', ''application/json''),
                 (''Authorization'', ''Token '' @ tok)],
      body = Some (object_literal
        [(''name'', map_of args ''name''),
         (''type'', map_of args ''type''),
         (''items'', map_of args ''items''),
         (''active'', nullish (map_of args ''active'') (Some (JBool True)))])\<rparr>"

definition create_execute :: "world \<Rightarrow> (string \<times> json) list \<Rightarrow> outcome" where
  "create_execute w args =
     (case token w of
        None \<Rightarrow> ([], Inr (text_reply missing_token_text))
      | Some tok \<Rightarrow>
          if tok = [] then ([], Inr (text_reply missing_token_text))
          else
            (case fetch w of
               None \<Rightarrow> ([], Inr (text_reply no_fetch_text))
             | Some fetchFn \<Rightarrow>
                 (let req = create_request tok args
                  in ([req],
                      case fetchFn [] req of
                        Rejected \<Rightarrow> Inl FetchFailed
                      | Resolved res \<Rightarrow> create_respond res))))"

definition createCreateNetworkListTool :: "string \<Rightarrow> string \<Rightarrow> McpTool" where
  "createCreateNetworkListTool name' description' =
     \<lparr>name = name',
      description = description',
      inputSchema =
        [(''name'', ZDescribe ZString ''The name of the network list.''),
         (''type'', ZDescribe (ZEnum [''ip_cidr'', ''asn'', ''countries''])
            ''The type of the network list.''),
         (''items'', ZDescribe (ZArray ZString) ''The items of the network list.''),
         (''active'', ZDescribe (ZOptional ZBoolean)
            ''Whether the network list is active. Defaults to true.'')],
      execute = create_execute\<rparr>"

subsection \<open>The registry\<close>

text \<open>The description each tool is registered with.\<close>

definition query_http_events_description :: string where
  "query_http_events_description =
     intercalate NL
       [''Queries Azion Real-Time Events GraphQL to list HTTP events in a given time range.'',
        ''        Inputs (all optional):'',
        ''            - begin: ISO 8601 UTC start datetime (defaults to now-5min)'',
        ''            - end: ISO 8601 UTC end datetime (defaults to now)'',
        '''',
        ''        Authorization:'',
        ''            - Set AZION_API_TOKEN (or AZION_TOKEN) in your environment/.env'',
        '''',
        ''        Example question:'',
        ''            \"List the latest HTTP events for my application.\"'',
        ''        '']"

definition list_network_lists_description :: string where
  "list_network_lists_description =
     intercalate NL
       [''Lists Azion Network Lists of type ip_cidr. Always filters by ip_cidr type.'',
        '''',
        ''        Authorization:'',
        ''            - Set AZION_API_TOKEN (or AZION_TOKEN) in your environment/.env'',
        '''',
        ''        Example question:'',
        ''            \"List all my IP CIDR network lists.\"'',
        ''        '']"

definition create_network_list_description :: string where
  "create_network_list_description =
     intercalate NL
       [''Creates an Azion Network List.'',
        ''        Inputs:'',
        ''            - name: The name of the network list.'',
        ''            - type: The type of the network list (ip_cidr, asn, countries).'',
        ''            - items: An array of items for the network list.'',
        ''            - active (optional): Whether the network list is active. Defaults to true.'',
        '''',
        ''        Authorization:'',
        ''            - Set AZION_API_TOKEN (or AZION_TOKEN) in your environment/.env'',
        '''',
        ''        Example question:'',
        ''            \"Create a new network list named 'My IP Blocklist' of type 'ip_cidr' with the items '192.168.1.1/32' and '10.0.0.0/8'.\"'',
        ''        '']"

definition get_network_list_description :: string where
  "get_network_list_description =
     intercalate NL
       [''Retrieves a specific Azion Network List by ID and optionally checks if an IP exists in it.'',
        ''        Inputs:'',
        ''            - networkListId: The ID of the network list to retrieve (e.g., 48334).'',
        ''            - checkIp (optional): IP address to check if it exists in the network list items.'',
        '''',
        ''        Authorization:'',
        ''            - Set AZION_API_TOKEN (or AZION_TOKEN) in your environment/.env'',
        '''',
        ''        Example questions:'',
        ''            \"Get network list 48334\"'',
        ''            \"Check if IP 192.168.1.100 exists in network list 48334\"'',
        ''        '']"

definition update_network_list_description :: string where
  "update_network_list_description =
     intercalate NL
       [''Updates an Azion Network List by adding new IP addresses or replacing all items.'',
        ''        Inputs:'',
        ''            - networkListId: The ID of the network list to update.'',
        ''            - newItems: Array of new IP addresses/CIDR blocks to add.'',
        ''            - replaceAll (optional): If true, replaces all items. If false (default), adds to existing items.'',
        '''',
        ''        Authorization:'',
        ''            - Set AZION_API_TOKEN (or AZION_TOKEN) in your environment/.env'',
        '''',
        ''        Example questions:'',
        ''            \"Add IP 192.168.1.200 to network list 48334\"'',
        ''            \"Update network list 48334 with IPs ['10.0.0.1', '172.16.0.1']\"'',
        ''        '']"

definition tools :: "McpTool list" where
  "tools =
     [createListHttpEventsTool ''query_http_events'' query_http_events_description,
      createListNetworkListTool ''list_network_lists'' list_network_lists_description,
      createCreateNetworkListTool ''create_network_list'' create_network_list_description,
      createGetNetworkListTool ''get_network_list'' get_network_list_description,
      createUpdateNetworkListTool ''update_network_list'' update_network_list_description]"

section \<open>The notions the claims are stated with\<close>

text \<open>
  The specification's wording of the merge: the deduplicated union of the existing
  items followed by the new items, every string once, at the place of its first
  occurrence in existing-then-new order.
\<close>

fun first_occurrences :: "'a list \<Rightarrow> 'a list" where
  "first_occurrences [] = []"
| "first_occurrences (x # xs) = x # first_occurrences (filter (\<lambda>y. y \<noteq> x) xs)"

definition dedup_union :: "string list \<Rightarrow> string list \<Rightarrow> string list" where
  "dedup_union existing new = first_occurrences (existing @ new)"

text \<open>The \<open>items\<close> array of the body of the PATCH request an invocation sent.\<close>

definition patch_items :: "outcome \<Rightarrow> json list option" where
  "patch_items out =
     (case filter (\<lambda>r. method r = PATCH) (fst out) of
        [] \<Rightarrow> None
      | r # rs \<Rightarrow>
          (case opt_prop (body r) ''items'' of Some (JArr xs) \<Rightarrow> Some xs | _ \<Rightarrow> None))"

text \<open>\<open>data.items\<close> of a body, when the body has one.\<close>

definition data_items :: "json \<Rightarrow> jsval" where
  "data_items j = opt_prop (opt_prop (Some j) ''data'') ''items''"

text \<open>The text of a reply, empty when the invocation threw.\<close>

definition reply_text :: "outcome \<Rightarrow> string" where
  "reply_text out = (case snd out of Inl e \<Rightarrow> [] | Inr r \<Rightarrow> concat (map text (content r)))"

text \<open>The value of a time argument: the string passed, or the default when it is omitted.\<close>

definition range_text :: "jsval \<Rightarrow> string \<Rightarrow> string" where
  "range_text arg dflt = (case arg of Some (JStr s) \<Rightarrow> s | _ \<Rightarrow> dflt)"

text \<open>The response shape each tool declares inside its \<open>execute\<close>.\<close>

definition response_shapes :: "(McpTool \<times> schema) list" where
  "response_shapes =
     zip tools
       [HttpEventsResponseSchema, ListResponseSchema, StateDataSchema, NetworkListSchema,
        StateDataSchema]"

text \<open>
  The one request that is not a tool's main request: the GET that
  \<open>update_network_list\<close> sends before its PATCH.
\<close>

definition preliminary :: "McpTool \<Rightarrow> request \<Rightarrow> bool" where
  "preliminary t req = (name t = ''update_network_list'' \<and> method req = GET)"


section \<open>Concrete runs\<close>

text \<open>An environment with a token in \<open>AZION_API_TOKEN\<close>.\<close>

definition with_token :: "string \<Rightarrow> string option" where
  "with_token k = (if k = ''AZION_API_TOKEN'' then Some ''t0'' else None)"

subsection \<open>\<open>update_network_list\<close>\<close>

definition merge_response :: response where
  "merge_response =
     \<lparr>status = 200, statusText = ''OK'',
      res_json = Some (JObj [(''data'', JObj [(''items'', JArr [JStr ''A'', JStr ''B''])])])\<rparr>"

definition merge_world :: world where
  "merge_world =
     \<lparr>env = with_token,
      fetch = Some (\<lambda>log req. if method req = GET then Resolved merge_response else Rejected),
      now = 1700000000000\<rparr>"

definition merge_args :: "(string \<times> json) list" where
  "merge_args = [(''networkListId'', JNum 48334), (''newItems'', JArr [JStr ''B'', JStr ''C''])]"

definition not_found :: response where
  "not_found =
     \<lparr>status = 404, statusText = ''Not Found'',
      res_json = Some (JObj [(''message'', JStr ''Not found.'')])\<rparr>"

definition fallback_world :: world where
  "fallback_world =
     \<lparr>env = with_token,
      fetch = Some (\<lambda>log req. if method req = GET then Resolved not_found else Rejected),
      now = 1700000000000\<rparr>"

definition duplicate_args :: "(string \<times> json) list" where
  "duplicate_args =
     [(''networkListId'', JNum 48334), (''newItems'', JArr [JStr ''x'', JStr ''x''])]"

definition replace_args :: "(string \<times> json) list" where
  "replace_args =
     [(''networkListId'', JNum 48334),
      (''newItems'', JArr [JStr ''x'', JStr ''x'']),
      (''replaceAll'', JBool True)]"

text \<open>A 2xx body whose \<open>data.items\<close> is a string where a list is due.\<close>

definition string_items_response :: response where
  "string_items_response =
     \<lparr>status = 200, statusText = ''OK'',
      res_json = Some (JObj [(''data'', JObj [(''items'', JStr ''AB'')])])\<rparr>"

definition string_items_world :: world where
  "string_items_world =
     \<lparr>env = with_token,
      fetch = Some (\<lambda>log req.
        if method req = GET then Resolved string_items_response else Rejected),
      now = 1700000000000\<rparr>"

subsection \<open>\<open>get_network_list\<close>\<close>

definition cidr_list :: json where
  "cidr_list =
     JObj [(''id'', JNum 48334), (''name'', JStr ''blocklist''), (''type'', JStr ''ip_cidr''),
           (''items'', JArr [JStr ''10.0.0.0/8'']), (''last_editor'', JStr ''ops''),
           (''last_modified'', JStr ''2024-02-29T12:34:56.789Z''), (''active'', JBool True)]"

definition cidr_response :: response where
  "cidr_response =
     \<lparr>status = 200, statusText = ''OK'', res_json = Some (JObj [(''data'', cidr_list)])\<rparr>"

definition cidr_world :: world where
  "cidr_world =
     \<lparr>env = with_token,
      fetch = Some (\<lambda>log req. Resolved cidr_response),
      now = 1700000000000\<rparr>"

definition cidr_args :: "(string \<times> json) list" where
  "cidr_args = [(''networkListId'', JNum 48334), (''checkIp'', JStr ''10.0.0.5'')]"

text \<open>A list that has the empty string among its items, and a check for it.\<close>

definition blank_list :: json where
  "blank_list =
     JObj [(''id'', JNum 7), (''name'', JStr ''n''), (''type'', JStr ''ip_cidr''),
           (''items'', JArr [JStr []]), (''last_editor'', JStr ''e''),
           (''last_modified'', JStr ''m''), (''active'', JBool True)]"

definition blank_world :: world where
  "blank_world =
     \<lparr>env = with_token,
      fetch = Some (\<lambda>log req. Resolved
        \<lparr>status = 200, statusText = ''OK'', res_json = Some (JObj [(''data'', blank_list)])\<rparr>),
      now = 1700000000000\<rparr>"

definition blank_args :: "(string \<times> json) list" where
  "blank_args = [(''networkListId'', JNum 7), (''checkIp'', JStr [])]"

text \<open>
  An upstream that answers the GET of \<open>update_network_list\<close> with the string for
  \<open>data.items\<close>, and the PATCH with a well-formed \<open>{state, data}\<close>.
\<close>

definition patched_response :: response where
  "patched_response =
     \<lparr>status = 200, statusText = ''OK'',
      res_json = Some (JObj [(''state'', JStr ''pending''), (''data'', blank_list)])\<rparr>"

definition patched_world :: world where
  "patched_world =
     \<lparr>env = with_token,
      fetch = Some (\<lambda>log req.
        if method req = GET then Resolved string_items_response else Resolved patched_response),
      now = 1700000000000\<rparr>"

subsection \<open>The other tools\<close>

definition no_token_world :: world where
  "no_token_world =
     \<lparr>env = (\<lambda>k. if k = ''AZION_TOKEN'' then Some [] else None),
      fetch = Some (\<lambda>log req. Resolved merge_response),
      now = 1700000000000\<rparr>"


definition create_args :: "(string \<times> json) list" where
  "create_args =
     [(''name'', JStr ''My IP Blocklist''),
      (''type'', JStr ''ip_cidr''),
      (''items'', JArr [JStr ''x'', JStr ''x''])]"

definition one_event :: json where
  "one_event = JObj [(''ts'', JStr ''2023-11-14T22:10:00Z''), (''host'', JStr ''example.com''),
                     (''status'', JNum 200), (''wafBlock'', JNull)]"

definition events_response :: response where
  "events_response =
     \<lparr>status = 200, statusText = ''OK'',
      res_json = Some (JObj [(''data'', JObj [(''httpEvents'', JArr [one_event])])])\<rparr>"

definition events_world :: world where
  "events_world =
     \<lparr>env = with_token,
      fetch = Some (\<lambda>log req. Resolved events_response),
      now = 1700000000000\<rparr>"

definition range_args :: "(string \<times> json) list" where
  "range_args = [(''begin'', JStr ''2023-11-14T00:00:00Z''), (''end'', JStr ''2023-11-14T01:00:00Z'')]"

text \<open>A listing whose \<open>results\<close> is a single object.\<close>

definition mismatch_response :: response where
  "mismatch_response =
     \<lparr>status = 200, statusText = ''OK'',
      res_json = Some (JObj [(''count'', JNum 1), (''results'', JObj [(''id'', JNum 1)])])\<rparr>"

definition mismatch_world :: world where
  "mismatch_world =
     \<lparr>env = with_token,
      fetch = Some (\<lambda>log req. Resolved mismatch_response),
      now = 1700000000000\<rparr>"

text \<open>Two upstreams whose listings differ and validate to the same value.\<close>

definition empty_listing :: fetch_fn where
  "empty_listing log req =
     Resolved \<lparr>status = 200, statusText = ''OK'',
       res_json = Some (JObj [(''count'', JNum 0), (''results'', JArr [])])\<rparr>"

definition empty_listing_extra :: fetch_fn where
  "empty_listing_extra log req =
     Resolved \<lparr>status = 201, statusText = ''Created'',
       res_json = Some (JObj [(''results'', JArr []), (''next'', JNull), (''count'', JNum 0)])\<rparr>"

section \<open>The merge of \<open>update_network_list\<close>\<close>

lemma set_first_occurrences: "set (first_occurrences xs) = set xs"
  by (induction xs rule: first_occurrences.induct) auto

lemma distinct_first_occurrences: "distinct (first_occurrences xs)"
  by (induction xs rule: first_occurrences.induct) (auto simp: set_first_occurrences)

lemma foldl_Set_add_strings:
  "foldl Set_add acc (map JStr xs) =
     acc @ map JStr (first_occurrences (filter (\<lambda>x. JStr x \<notin> set acc) xs))"
proof (induction xs arbitrary: acc)
  case Nil
  show ?case by simp
next
  case (Cons x xs)
  show ?case
  proof (cases "JStr x \<in> set acc")
    case True
    then show ?thesis using Cons [of acc] by (simp add: Set_add_def)
  next
    case False
    have "filter (\<lambda>y. JStr y \<notin> set (acc @ [JStr x])) xs
        = filter (\<lambda>y. y \<noteq> x) (filter (\<lambda>y. JStr y \<notin> set acc) xs)"
      by (auto intro: filter_cong)
    then show ?thesis using False Cons [of "acc @ [JStr x]"] by (simp add: Set_add_def)
  qed
qed

lemma new_Set_strings: "new_Set (map JStr xs) = map JStr (first_occurrences xs)"
  using foldl_Set_add_strings [of "[]" xs] by (simp add: new_Set_def)

lemma update_merge_log:
  assumes tok: "token w = Some tok" "tok \<noteq> []"
    and fetch: "fetch w = Some fetchFn"
    and replaceAll: "map_of args ''replaceAll'' = None \<or> map_of args ''replaceAll'' = Some (JBool False)"
    and newItems: "map_of args ''newItems'' = Some (JArr (map JStr newItems))"
    and getRes: "fetchFn [] (get_request tok args) = Resolved getRes" "ok getRes"
    and currentData: "res_json getRes = Some (JObj kvs)"
      "map_of kvs ''data'' = Some (JObj data)"
      "map_of data ''items'' = Some (JArr (map JStr existing))"
  shows "fst (update_execute w args) =
           [get_request tok args,
            patch_request tok args (Some (JArr (map JStr (dedup_union existing newItems))))]"
proof -
  have nt: "\<not> truthy (map_of args ''replaceAll'')"
    using replaceAll by auto
  have "new_Set (map JStr existing @ map JStr newItems)
      = map JStr (dedup_union existing newItems)"
    using new_Set_strings [of "existing @ newItems"] by (simp add: dedup_union_def)
  then have fi: "final_items fetchFn tok args =
      ([get_request tok args], Inr (Some (JArr (map JStr (dedup_union existing newItems)))))"
    using nt newItems getRes currentData by (simp add: final_items_def and_then_def)
  show ?thesis
    using tok fetch fi by (simp add: update_execute_def Let_def)
qed

text \<open>
  C1. When \<open>replaceAll\<close> is false or omitted and the preliminary GET answers 2xx with
  a body whose \<open>data.items\<close> is a list of strings, the invocation sends the GET and
  then a PATCH whose body's \<open>items\<close> is the deduplicated union of the existing items
  followed by the new ones, first occurrences kept in that order.
\<close>

theorem update_merge_items:
  assumes tok: "token w = Some tok" "tok \<noteq> []"
    and fetch: "fetch w = Some fetchFn"
    and replaceAll: "map_of args ''replaceAll'' = None \<or> map_of args ''replaceAll'' = Some (JBool False)"
    and newItems: "map_of args ''newItems'' = Some (JArr (map JStr newItems))"
    and getRes: "fetchFn [] (get_request tok args) = Resolved getRes" "ok getRes"
    and currentData: "res_json getRes = Some (JObj kvs)"
      "map_of kvs ''data'' = Some (JObj data)"
      "map_of data ''items'' = Some (JArr (map JStr existing))"
  shows "fst (update_execute w args) =
           [get_request tok args,
            patch_request tok args (Some (JArr (map JStr (dedup_union existing newItems))))]
         \<and> body (patch_request tok args (Some (JArr (map JStr (dedup_union existing newItems)))))
             = Some (JObj [(''items'', JArr (map JStr (dedup_union existing newItems)))])"
proof -
  have "fst (update_execute w args) =
      [get_request tok args,
       patch_request tok args (Some (JArr (map JStr (dedup_union existing newItems))))]"
    using tok fetch replaceAll newItems getRes currentData by (rule update_merge_log)
  then show ?thesis
    by (simp add: patch_request_def)
qed

theorem update_merge_items_witness:
  "fst (update_execute merge_world merge_args) =
     [get_request ''t0'' merge_args,
      patch_request ''t0'' merge_args (Some (JArr [JStr ''A'', JStr ''B'', JStr ''C'']))]
   \<and> body (patch_request ''t0'' merge_args (Some (JArr [JStr ''A'', JStr ''B'', JStr ''C''])))
       = Some (JObj [(''items'', JArr [JStr ''A'', JStr ''B'', JStr ''C''])])"
proof -
  let ?f = "\<lambda>log req. if method req = GET then Resolved merge_response else Rejected"
  have h1: "token merge_world = Some ''t0''"
    by (simp add: token_def merge_world_def with_token_def)
  have h2: "''t0'' \<noteq> []"
    by simp
  have h3: "fetch merge_world = Some ?f"
    by (simp add: merge_world_def)
  have h4: "map_of merge_args ''replaceAll'' = None
      \<or> map_of merge_args ''replaceAll'' = Some (JBool False)"
    by (simp add: merge_args_def)
  have h5: "map_of merge_args ''newItems'' = Some (JArr (map JStr [''B'', ''C'']))"
    by (simp add: merge_args_def)
  have h6: "?f [] (get_request ''t0'' merge_args) = Resolved merge_response"
    by (simp add: get_request_def)
  have h7: "ok merge_response"
    by (simp add: ok_def merge_response_def)
  have h8: "res_json merge_response
      = Some (JObj [(''data'', JObj [(''items'', JArr [JStr ''A'', JStr ''B''])])])"
    by (simp add: merge_response_def)
  have h9: "map_of [(''data'', JObj [(''items'', JArr [JStr ''A'', JStr ''B''])])] ''data''
      = Some (JObj [(''items'', JArr [JStr ''A'', JStr ''B''])])"
    by simp
  have h10: "map_of [(''items'', JArr [JStr ''A'', JStr ''B''])] ''items''
      = Some (JArr (map JStr [''A'', ''B'']))"
    by simp
  have d: "dedup_union [''A'', ''B''] [''B'', ''C''] = [''A'', ''B'', ''C'']"
    by (simp add: dedup_union_def)
  show ?thesis
    using update_merge_items [OF h1 h2 h3 h4 h5 h6 h7 h8 h9 h10] d by simp
qed



lemma get_prop_defined:
  "j \<noteq> JNull \<Longrightarrow> get_prop (Some j) k = Inr (opt_prop (Some j) k)"
  by (cases j) simp_all

lemma get_prop_truthy:
  "truthy v \<Longrightarrow> get_prop v k = Inr (opt_prop v k)"
proof (cases v)
  case None
  then show "truthy v \<Longrightarrow> ?thesis" by simp
next
  case (Some j)
  then show "truthy v \<Longrightarrow> ?thesis" by (cases j) simp_all
qed


lemma final_items_fallback:
  assumes "\<not> truthy (map_of args ''replaceAll'')"
    and "fetchFn [] (get_request tok args) = Resolved getRes"
    and "\<not> ok getRes \<or> res_json getRes = None
         \<or> (\<exists>j. res_json getRes = Some j \<and> j \<noteq> JNull \<and> \<not> truthy (data_items j))"
  shows "final_items fetchFn tok args = ([get_request tok args], Inr (map_of args ''newItems''))"
proof (cases "ok getRes")
  case False
  then show ?thesis using assms(1,2) by (simp add: final_items_def)
next
  case True
  show ?thesis
  proof (cases "res_json getRes")
    case None
    then show ?thesis using True assms(1,2) by (simp add: final_items_def and_then_def)
  next
    case (Some j)
    then have j: "j \<noteq> JNull" "\<not> truthy (data_items j)"
      using True assms(3) by auto
    show ?thesis
    proof (cases "truthy (opt_prop (Some j) ''data'')")
      case False
      then show ?thesis
        using True Some j(1) assms(1,2)
        by (simp add: final_items_def and_then_def get_prop_defined)
    next
      case data: True
      then show ?thesis
        using True Some j assms(1,2)
        by (simp add: final_items_def and_then_def get_prop_defined get_prop_truthy
              data_items_def)
    qed
  qed
qed

lemma update_execute_log:
  assumes "token w = Some tok" "tok \<noteq> []" "fetch w = Some fetchFn"
    and "final_items fetchFn tok args = (log, Inr finalItems)"
  shows "fst (update_execute w args) = log @ [patch_request tok args finalItems]"
  using assms by (simp add: update_execute_def Let_def)

lemma patch_items_log:
  assumes "fst out = log @ [patch_request tok args (Some (JArr xs))]"
    and "\<forall>r \<in> set log. method r = GET"
  shows "patch_items out = Some xs"
proof -
  have "filter (\<lambda>r. method r = PATCH) log = []"
    using assms(2) by (auto simp: filter_empty_conv)
  then show ?thesis
    using assms(1) by (simp add: patch_items_def patch_request_def)
qed

lemma method_get_request: "method (get_request tok args) = GET"
  by (simp add: get_request_def)



text \<open>
  C2, as stated, fails in the fallback: the preliminary GET answers 404, \<open>newItems\<close> is
  \<open>["x", "x"]\<close>, and the PATCH carries \<open>["x", "x"]\<close>.
\<close>

theorem fallback_keeps_duplicates:
  "patch_items (update_execute fallback_world duplicate_args) = Some [JStr ''x'', JStr ''x'']
   \<and> \<not> distinct (the (patch_items (update_execute fallback_world duplicate_args)))"
proof -
  let ?f = "\<lambda>log req. if method req = GET then Resolved not_found else Rejected"
  have tok: "token fallback_world = Some ''t0''" "''t0'' \<noteq> []"
    by (simp_all add: token_def fallback_world_def with_token_def)
  have fetch: "fetch fallback_world = Some ?f"
    by (simp add: fallback_world_def)
  have nt: "\<not> truthy (map_of duplicate_args ''replaceAll'')"
    by (simp add: duplicate_args_def)
  have getRes: "?f [] (get_request ''t0'' duplicate_args) = Resolved not_found"
    by (simp add: method_get_request)
  have "\<not> ok not_found"
    by (simp add: ok_def not_found_def)
  then have "final_items ?f ''t0'' duplicate_args
      = ([get_request ''t0'' duplicate_args], Inr (map_of duplicate_args ''newItems''))"
    using final_items_fallback [where fetchFn = ?f and tok = "''t0''"
        and args = duplicate_args and getRes = not_found, OF nt getRes] by simp
  then have "final_items ?f ''t0'' duplicate_args
      = ([get_request ''t0'' duplicate_args], Inr (Some (JArr [JStr ''x'', JStr ''x''])))"
    by (simp add: duplicate_args_def)
  then have "fst (update_execute fallback_world duplicate_args)
      = [get_request ''t0'' duplicate_args]
        @ [patch_request ''t0'' duplicate_args (Some (JArr [JStr ''x'', JStr ''x'']))]"
    by (rule update_execute_log [OF tok fetch])
  then have "patch_items (update_execute fallback_world duplicate_args)
      = Some [JStr ''x'', JStr ''x'']"
    by (rule patch_items_log) (simp add: method_get_request)
  then show ?thesis
    by simp
qed

text \<open>
  C2, amended. On the merge path with strings for \<open>newItems\<close>: when the preliminary GET
  answers 2xx with a body whose \<open>data.items\<close> is a list of strings, the \<open>items\<close> of the
  PATCH body has no duplicates; when the GET answers outside 2xx, or its body is not
  JSON, or is JSON other than \<open>null\<close> without \<open>data.items\<close>, the \<open>items\<close> of the PATCH
  body is \<open>newItems\<close> as supplied.
\<close>

theorem update_items_distinct_or_verbatim:
  assumes tok: "token w = Some tok" "tok \<noteq> []"
    and fetch: "fetch w = Some fetchFn"
    and replaceAll: "map_of args ''replaceAll'' = None \<or> map_of args ''replaceAll'' = Some (JBool False)"
    and newItems: "map_of args ''newItems'' = Some (JArr (map JStr newItems))"
    and getRes: "fetchFn [] (get_request tok args) = Resolved getRes"
  shows "(ok getRes \<and> (\<exists>j existing. res_json getRes = Some j
            \<and> data_items j = Some (JArr (map JStr existing)))
          \<longrightarrow> (\<exists>xs. patch_items (update_execute w args) = Some xs \<and> distinct xs))
       \<and> (\<not> ok getRes \<or> res_json getRes = None
            \<or> (\<exists>j. res_json getRes = Some j \<and> j \<noteq> JNull \<and> data_items j = None)
          \<longrightarrow> patch_items (update_execute w args) = Some (map JStr newItems))"
proof (intro conjI impI)
  assume "ok getRes \<and> (\<exists>j existing. res_json getRes = Some j
            \<and> data_items j = Some (JArr (map JStr existing)))"
  then obtain j existing where ok: "ok getRes" and j: "res_json getRes = Some j"
    and items: "data_items j = Some (JArr (map JStr existing))"
    by blast
  from items obtain kvs where kvs: "j = JObj kvs"
    by (cases j) (simp_all add: data_items_def)
  from items kvs obtain data where data: "map_of kvs ''data'' = Some (JObj data)"
    and di: "map_of data ''items'' = Some (JArr (map JStr existing))"
    by (cases "map_of kvs ''data''"; cases "the (map_of kvs ''data'')")
       (simp_all add: data_items_def)
  have "fst (update_execute w args) =
      [get_request tok args] @
      [patch_request tok args (Some (JArr (map JStr (dedup_union existing newItems))))]"
    using update_merge_log [OF tok fetch replaceAll newItems getRes ok j [unfolded kvs] data di]
    by simp
  then have "patch_items (update_execute w args) = Some (map JStr (dedup_union existing newItems))"
    by (rule patch_items_log) (simp add: method_get_request)
  moreover have "distinct (map JStr (dedup_union existing newItems))"
    by (simp add: distinct_map dedup_union_def distinct_first_occurrences inj_on_def)
  ultimately show "\<exists>xs. patch_items (update_execute w args) = Some xs \<and> distinct xs"
    by simp
next
  assume fb: "\<not> ok getRes \<or> res_json getRes = None
            \<or> (\<exists>j. res_json getRes = Some j \<and> j \<noteq> JNull \<and> data_items j = None)"
  have nt: "\<not> truthy (map_of args ''replaceAll'')"
    using replaceAll by auto
  have "\<not> ok getRes \<or> res_json getRes = None
         \<or> (\<exists>j. res_json getRes = Some j \<and> j \<noteq> JNull \<and> \<not> truthy (data_items j))"
    using fb by auto
  then have "final_items fetchFn tok args
      = ([get_request tok args], Inr (Some (JArr (map JStr newItems))))"
    using final_items_fallback [where fetchFn = fetchFn and tok = tok
        and args = args and getRes = getRes, OF nt getRes] newItems by simp
  then have "fst (update_execute w args) =
      [get_request tok args] @ [patch_request tok args (Some (JArr (map JStr newItems)))]"
    by (rule update_execute_log [OF tok fetch])
  then show "patch_items (update_execute w args) = Some (map JStr newItems)"
    by (rule patch_items_log) (simp add: method_get_request)
qed

theorem update_items_distinct_or_verbatim_witness:
  "(\<exists>xs. patch_items (update_execute merge_world merge_args) = Some xs \<and> distinct xs)
   \<and> patch_items (update_execute fallback_world duplicate_args) = Some (map JStr [''x'', ''x''])"
proof -
  let ?f = "\<lambda>log req. if method req = GET then Resolved merge_response else Rejected"
  let ?g = "\<lambda>log req. if method req = GET then Resolved not_found else Rejected"
  have m1: "token merge_world = Some ''t0''" "''t0'' \<noteq> []"
    by (simp_all add: token_def merge_world_def with_token_def)
  have m2: "fetch merge_world = Some ?f"
    by (simp add: merge_world_def)
  have m3: "map_of merge_args ''replaceAll'' = None
      \<or> map_of merge_args ''replaceAll'' = Some (JBool False)"
    by (simp add: merge_args_def)
  have m4: "map_of merge_args ''newItems'' = Some (JArr (map JStr [''B'', ''C'']))"
    by (simp add: merge_args_def)
  have m5: "?f [] (get_request ''t0'' merge_args) = Resolved merge_response"
    by (simp add: method_get_request)
  have m6: "ok merge_response \<and> (\<exists>j existing. res_json merge_response = Some j
      \<and> data_items j = Some (JArr (map JStr existing)))"
  proof -
    let ?j = "JObj [(''data'', JObj [(''items'', JArr [JStr ''A'', JStr ''B''])])]"
    have di: "data_items ?j = Some (JArr (map JStr [''A'', ''B'']))"
      by (simp add: data_items_def)
    have rj: "res_json merge_response = Some ?j"
      by (simp add: merge_response_def)
    have okm: "ok merge_response"
      by (simp add: ok_def merge_response_def)
    show ?thesis
      using di rj okm by blast
  qed
  have f1: "token fallback_world = Some ''t0''"
    by (simp add: token_def fallback_world_def with_token_def)
  have f2: "fetch fallback_world = Some ?g"
    by (simp add: fallback_world_def)
  have f3: "map_of duplicate_args ''replaceAll'' = None
      \<or> map_of duplicate_args ''replaceAll'' = Some (JBool False)"
    by (simp add: duplicate_args_def)
  have f4: "map_of duplicate_args ''newItems'' = Some (JArr (map JStr [''x'', ''x'']))"
    by (simp add: duplicate_args_def)
  have f5: "?g [] (get_request ''t0'' duplicate_args) = Resolved not_found"
    by (simp add: method_get_request)
  have f6: "\<not> ok not_found"
    by (simp add: ok_def not_found_def)
  show ?thesis
    using update_items_distinct_or_verbatim [OF m1 m2 m3 m4 m5] m6
      update_items_distinct_or_verbatim [OF f1 m1(2) f2 f3 f4 f5] f6
    by blast
qed



section \<open>Preconditions and request bodies\<close>

lemma missing_token_mentions: "sublist ''Missing AZION_API_TOKEN'' missing_token_text"
  by (rule prefix_imp_sublist) (simp add: missing_token_text_def)

lemma tools_cases:
  assumes "t \<in> set tools"
  obtains n d where "t = createListHttpEventsTool n d"
  | n d where "t = createListNetworkListTool n d"
  | n d where "t = createCreateNetworkListTool n d"
  | n d where "t = createGetNetworkListTool n d"
  | n d where "t = createUpdateNetworkListTool n d"
  using assms unfolding tools_def by auto

lemma execute_simps:
  "execute (createListHttpEventsTool n d) = http_events_execute"
  "execute (createListNetworkListTool n d) = list_execute"
  "execute (createCreateNetworkListTool n d) = create_execute"
  "execute (createGetNetworkListTool n d) = get_execute"
  "execute (createUpdateNetworkListTool n d) = update_execute"
  by (simp_all add: createListHttpEventsTool_def createListNetworkListTool_def
        createCreateNetworkListTool_def createGetNetworkListTool_def
        createUpdateNetworkListTool_def)

lemma no_token:
  assumes "env w ''AZION_API_TOKEN'' = None \<or> env w ''AZION_API_TOKEN'' = Some []"
    and "env w ''AZION_TOKEN'' = None \<or> env w ''AZION_TOKEN'' = Some []"
  shows "token w = None \<or> token w = Some []"
  using assms by (auto simp: token_def)

text \<open>
  C5. When neither \<open>AZION_API_TOKEN\<close> nor \<open>AZION_TOKEN\<close> holds a non-empty string, every
  tool of the registry, on every argument object, replies with the one text
  \<open>Missing AZION_API_TOKEN ...\<close> and passes no request to \<open>fetch\<close>.
\<close>

theorem missing_credentials:
  assumes "t \<in> set tools"
    and "env w ''AZION_API_TOKEN'' = None \<or> env w ''AZION_API_TOKEN'' = Some []"
    and "env w ''AZION_TOKEN'' = None \<or> env w ''AZION_TOKEN'' = Some []"
  shows "execute t w args
           = ([], Inr \<lparr>content = [\<lparr>type = ''text'', text = missing_token_text\<rparr>]\<rparr>)
         \<and> sublist ''Missing AZION_API_TOKEN'' missing_token_text"
proof -
  have tok: "token w = None \<or> token w = Some []"
    using assms(2,3) by (rule no_token)
  have "execute t w args = ([], Inr (text_reply missing_token_text))"
    using assms(1)
  proof (cases rule: tools_cases)
    case (1 n d)
    then show ?thesis using tok by (auto simp: execute_simps http_events_execute_def Let_def)
  next
    case (2 n d)
    then show ?thesis using tok by (auto simp: execute_simps list_execute_def)
  next
    case (3 n d)
    then show ?thesis using tok by (auto simp: execute_simps create_execute_def)
  next
    case (4 n d)
    then show ?thesis using tok by (auto simp: execute_simps get_execute_def)
  next
    case (5 n d)
    then show ?thesis using tok by (auto simp: execute_simps update_execute_def)
  qed
  then show ?thesis
    using missing_token_mentions by (simp add: text_reply_def)
qed

theorem missing_credentials_witness:
  "execute (tools ! 4) no_token_world replace_args
     = ([], Inr \<lparr>content = [\<lparr>type = ''text'', text = missing_token_text\<rparr>]\<rparr>)
   \<and> sublist ''Missing AZION_API_TOKEN'' missing_token_text"
proof -
  have h1: "tools ! 4 \<in> set tools"
    by (simp add: tools_def)
  have h2: "env no_token_world ''AZION_API_TOKEN'' = None
      \<or> env no_token_world ''AZION_API_TOKEN'' = Some []"
    by (simp add: no_token_world_def)
  have h3: "env no_token_world ''AZION_TOKEN'' = None
      \<or> env no_token_world ''AZION_TOKEN'' = Some []"
    by (simp add: no_token_world_def)
  show ?thesis
    using missing_credentials [OF h1 h2 h3] by simp
qed

text \<open>
  C9. \<open>create_network_list\<close> sends one POST whose body's \<open>items\<close> is the \<open>items\<close>
  argument as supplied, and whose \<open>active\<close> is the supplied boolean, or \<open>true\<close> when
  \<open>active\<close> is omitted.
\<close>

theorem create_body_verbatim:
  assumes tok: "token w = Some tok" "tok \<noteq> []"
    and fetch: "fetch w = Some fetchFn"
    and items: "map_of args ''items'' = Some items"
    and active: "map_of args ''active'' = None \<or> map_of args ''active'' = Some (JBool b)"
  shows "fst (create_execute w args) = [create_request tok args]
         \<and> method (create_request tok args) = POST
         \<and> opt_prop (body (create_request tok args)) ''items'' = Some items
         \<and> opt_prop (body (create_request tok args)) ''active''
             = Some (JBool (if map_of args ''active'' = None then True else b))"
proof -
  have log: "fst (create_execute w args) = [create_request tok args]"
    using tok fetch by (simp add: create_execute_def Let_def)
  have m: "method (create_request tok args) = POST"
    by (simp add: create_request_def)
  have i: "opt_prop (body (create_request tok args)) ''items'' = Some items"
    using items by (simp add: create_request_def split: option.split)
  have a: "opt_prop (body (create_request tok args)) ''active''
      = Some (JBool (if map_of args ''active'' = None then True else b))"
    using active by (auto simp: create_request_def split: option.split)
  show ?thesis
    using log m i a by simp
qed

theorem create_body_verbatim_witness:
  "fst (create_execute merge_world create_args) = [create_request ''t0'' create_args]
   \<and> method (create_request ''t0'' create_args) = POST
   \<and> opt_prop (body (create_request ''t0'' create_args)) ''items''
       = Some (JArr [JStr ''x'', JStr ''x''])
   \<and> opt_prop (body (create_request ''t0'' create_args)) ''active'' = Some (JBool True)"
proof -
  have h1: "token merge_world = Some ''t0''" "''t0'' \<noteq> []"
    by (simp_all add: token_def merge_world_def with_token_def)
  have h2: "fetch merge_world
      = Some (\<lambda>log req. if method req = GET then Resolved merge_response else Rejected)"
    by (simp add: merge_world_def)
  have h3: "map_of create_args ''items'' = Some (JArr [JStr ''x'', JStr ''x''])"
    by (simp add: create_args_def)
  have h4: "map_of create_args ''active'' = None
      \<or> map_of create_args ''active'' = Some (JBool False)"
    by (simp add: create_args_def)
  show ?thesis
    using create_body_verbatim [OF h1 h2 h3 h4] h4 by (simp add: create_args_def)
qed



section \<open>What the validator accepts\<close>

lemma parse_ZObject_Some:
  "parse (ZObject shape) p (Some (JObj kvs)) =
     (concat (map (\<lambda>(k, s). fst (parse s (p @ [JStr k]) (map_of kvs k))) shape),
      Some (JObj (concat (map (\<lambda>(k, s).
        case snd (parse s (p @ [JStr k]) (map_of kvs k)) of None \<Rightarrow> [] | Some j \<Rightarrow> [(k, j)])
        shape))))"
  by (simp add: Let_def case_prod_unfold comp_def cong: option.case_cong)

lemma parse_ZObject_ok:
  assumes "fst (parse (ZObject shape) p v) = []"
  obtains kvs where "v = Some (JObj kvs)"
proof (cases v)
  case None
  then show ?thesis using assms by simp
next
  case (Some j)
  then show ?thesis using assms that by (cases j) simp_all
qed

lemma parse_ZArray_ok:
  assumes "fst (parse (ZArray s) p v) = []"
  obtains xs ys where "v = Some (JArr xs)" "snd (parse (ZArray s) p v) = Some (JArr ys)"
proof (cases v)
  case None
  then show ?thesis using assms by simp
next
  case (Some j)
  then show ?thesis using assms that by (cases j) (simp_all add: Let_def)
qed

lemma parse_ZString_ok:
  assumes "fst (parse ZString p v) = []"
  obtains s where "v = Some (JStr s)" "snd (parse ZString p v) = Some (JStr s)"
proof (cases v)
  case None
  then show ?thesis using assms by simp
next
  case (Some j)
  then show ?thesis using assms that by (cases j) simp_all
qed

lemma parse_ZNumber_ok:
  assumes "fst (parse ZNumber p v) = []"
  obtains n where "v = Some (JNum n)" "snd (parse ZNumber p v) = Some (JNum n)"
proof (cases v)
  case None
  then show ?thesis using assms by simp
next
  case (Some j)
  then show ?thesis using assms that by (cases j) simp_all
qed

lemma parse_ZBoolean_ok:
  assumes "fst (parse ZBoolean p v) = []"
  obtains b where "v = Some (JBool b)" "snd (parse ZBoolean p v) = Some (JBool b)"
proof (cases v)
  case None
  then show ?thesis using assms by simp
next
  case (Some j)
  then show ?thesis using assms that by (cases j) simp_all
qed

lemma parse_strings_enumerate:
  assumes "concat (map (\<lambda>(i, x). fst (parse ZString (p @ [JNum (int i)]) (Some x)))
             (enumerate n xs)) = []"
  shows "\<exists>its. xs = map JStr its
           \<and> concat (map (\<lambda>(i, x).
                 case snd (parse ZString (p @ [JNum (int i)]) (Some x)) of
                   None \<Rightarrow> [] | Some j \<Rightarrow> [j]) (enumerate n xs)) = xs"
  using assms
proof (induction xs arbitrary: n)
  case Nil
  show ?case by simp
next
  case (Cons x xs)
  from Cons.prems have hd: "fst (parse ZString (p @ [JNum (int n)]) (Some x)) = []"
    and tl: "concat (map (\<lambda>(i, x). fst (parse ZString (p @ [JNum (int i)]) (Some x)))
             (enumerate (Suc n) xs)) = []"
    by simp_all
  from hd obtain s where s: "x = JStr s"
    by (cases x) simp_all
  from Cons.IH [OF tl] obtain its where "xs = map JStr its"
    and "concat (map (\<lambda>(i, x).
                 case snd (parse ZString (p @ [JNum (int i)]) (Some x)) of
                   None \<Rightarrow> [] | Some j \<Rightarrow> [j]) (enumerate (Suc n) xs)) = xs"
    by blast
  then show ?case
    using s by (auto intro: exI [of _ "s # its"])
qed

lemma parse_ZArray_ZString_ok:
  assumes "fst (parse (ZArray ZString) p v) = []"
  obtains its where "v = Some (JArr (map JStr its))"
    "snd (parse (ZArray ZString) p v) = Some (JArr (map JStr its))"
proof -
  from assms obtain xs where v: "v = Some (JArr xs)"
    by (rule parse_ZArray_ok)
  have "concat (map (\<lambda>(i, x). fst (parse ZString (p @ [JNum (int i)]) (Some x)))
             (enumerate 0 xs)) = []"
    using assms v by (simp add: Let_def case_prod_unfold comp_def)
  from parse_strings_enumerate [OF this] obtain its where "xs = map JStr its"
    and "concat (map (\<lambda>(i, x).
                 case snd (parse ZString (p @ [JNum (int i)]) (Some x)) of
                   None \<Rightarrow> [] | Some j \<Rightarrow> [j]) (enumerate 0 xs)) = xs"
    by blast
  then show ?thesis
    using that [of its] v by (simp add: Let_def case_prod_unfold comp_def)
qed

declare parse.simps [simp del]

text \<open>What a value that passes \<open>NetworkListData\<close> is, and what the validator hands back.\<close>

lemma parse_NetworkListData_ok:
  assumes "fst (parse NetworkListData p v) = []"
  obtains d i n t its e m a where
    "v = Some (JObj d)"
    "map_of d ''items'' = Some (JArr (map JStr its))"
    "snd (parse NetworkListData p v) =
       Some (JObj [(''id'', JNum i), (''name'', JStr n), (''type'', JStr t),
                   (''items'', JArr (map JStr its)), (''last_editor'', JStr e),
                   (''last_modified'', JStr m), (''active'', JBool a)])"
proof -
  from assms obtain d where v: "v = Some (JObj d)"
    unfolding NetworkListData_def by (rule parse_ZObject_ok)
  have all: "fst (parse ZNumber (p @ [JStr ''id'']) (map_of d ''id'')) = []"
    "fst (parse ZString (p @ [JStr ''name'']) (map_of d ''name'')) = []"
    "fst (parse ZString (p @ [JStr ''type'']) (map_of d ''type'')) = []"
    "fst (parse (ZArray ZString) (p @ [JStr ''items'']) (map_of d ''items'')) = []"
    "fst (parse ZString (p @ [JStr ''last_editor'']) (map_of d ''last_editor'')) = []"
    "fst (parse ZString (p @ [JStr ''last_modified'']) (map_of d ''last_modified'')) = []"
    "fst (parse ZBoolean (p @ [JStr ''active'']) (map_of d ''active'')) = []"
    using assms unfolding v NetworkListData_def parse_ZObject_Some by simp_all
  from all(1) obtain i where i: "snd (parse ZNumber (p @ [JStr ''id'']) (map_of d ''id'')) = Some (JNum i)"
    by (rule parse_ZNumber_ok)
  from all(2) obtain n where n: "snd (parse ZString (p @ [JStr ''name'']) (map_of d ''name'')) = Some (JStr n)"
    by (rule parse_ZString_ok)
  from all(3) obtain t where t: "snd (parse ZString (p @ [JStr ''type'']) (map_of d ''type'')) = Some (JStr t)"
    by (rule parse_ZString_ok)
  from all(4) obtain its where its: "map_of d ''items'' = Some (JArr (map JStr its))"
    "snd (parse (ZArray ZString) (p @ [JStr ''items'']) (map_of d ''items'')) = Some (JArr (map JStr its))"
    by (rule parse_ZArray_ZString_ok)
  from all(5) obtain e where e: "snd (parse ZString (p @ [JStr ''last_editor'']) (map_of d ''last_editor'')) = Some (JStr e)"
    by (rule parse_ZString_ok)
  from all(6) obtain m where m: "snd (parse ZString (p @ [JStr ''last_modified'']) (map_of d ''last_modified'')) = Some (JStr m)"
    by (rule parse_ZString_ok)
  from all(7) obtain a where a: "snd (parse ZBoolean (p @ [JStr ''active'']) (map_of d ''active'')) = Some (JBool a)"
    by (rule parse_ZBoolean_ok)
  have "snd (parse NetworkListData p v) =
       Some (JObj [(''id'', JNum i), (''name'', JStr n), (''type'', JStr t),
                   (''items'', JArr (map JStr its)), (''last_editor'', JStr e),
                   (''last_modified'', JStr m), (''active'', JBool a)])"
    unfolding v NetworkListData_def parse_ZObject_Some
    using i n t its(2) e m a by simp
  then show ?thesis
    using that v its(1) by blast
qed



section \<open>\<open>get_network_list\<close> and the membership check\<close>

lemma safeParse_Inr:
  assumes "safeParse s v = Inr parsed"
  shows "fst (parse s [] v) = []" "parsed = snd (parse s [] v)"
  using assms by (auto simp: safeParse_def split: prod.splits if_splits)

lemma safeParse_NetworkListSchema:
  assumes "safeParse NetworkListSchema (Some j) = Inr parsed"
  obtains kvs d i n t its e m a where
    "j = JObj kvs"
    "map_of kvs ''data'' = Some (JObj d)"
    "map_of d ''items'' = Some (JArr (map JStr its))"
    "parsed = Some (JObj [(''data'',
       JObj [(''id'', JNum i), (''name'', JStr n), (''type'', JStr t),
             (''items'', JArr (map JStr its)), (''last_editor'', JStr e),
             (''last_modified'', JStr m), (''active'', JBool a)])])"
proof -
  have ok: "fst (parse NetworkListSchema [] (Some j)) = []"
    and out: "parsed = snd (parse NetworkListSchema [] (Some j))"
    using safeParse_Inr [OF assms] by simp_all
  from ok obtain kvs where "Some j = Some (JObj kvs)"
    unfolding NetworkListSchema_def by (rule parse_ZObject_ok)
  then have j: "j = JObj kvs"
    by simp
  have "fst (parse NetworkListData ([] @ [JStr ''data'']) (map_of kvs ''data'')) = []"
    using ok unfolding j NetworkListSchema_def parse_ZObject_Some by simp
  then obtain d i n t its e m a where d: "map_of kvs ''data'' = Some (JObj d)"
    "map_of d ''items'' = Some (JArr (map JStr its))"
    "snd (parse NetworkListData ([] @ [JStr ''data'']) (map_of kvs ''data'')) =
       Some (JObj [(''id'', JNum i), (''name'', JStr n), (''type'', JStr t),
                   (''items'', JArr (map JStr its)), (''last_editor'', JStr e),
                   (''last_modified'', JStr m), (''active'', JBool a)])"
    by (rule parse_NetworkListData_ok)
  have "parsed = Some (JObj [(''data'',
       JObj [(''id'', JNum i), (''name'', JStr n), (''type'', JStr t),
             (''items'', JArr (map JStr its)), (''last_editor'', JStr e),
             (''last_modified'', JStr m), (''active'', JBool a)])])"
    unfolding out j NetworkListSchema_def parse_ZObject_Some using d(3) by simp
  then show ?thesis
    using that j d(1,2) by blast
qed

lemma get_execute_fetched:
  assumes "token w = Some tok" "tok \<noteq> []" "fetch w = Some fetchFn"
    and "fetchFn [] (get_request tok args) = Resolved res"
  shows "get_execute w args = ([get_request tok args], get_respond args res)"
  using assms by (simp add: get_execute_def Let_def)

text \<open>
  C6, amended. For a \<open>checkIp\<close> that is a non-empty string and a 2xx response that
  passes validation, the reply ends with the line \<open>IP Check: <checkIp> is already present in
  the network list.\<close> when \<open>checkIp\<close> is equal to one of the strings of \<open>data.items\<close>, and
  with \<open>IP Check: <checkIp> is NOT present in the network list.\<close> otherwise; equality of
  strings is the only test.
\<close>

theorem ip_check_exact_match:
  assumes tok: "token w = Some tok" "tok \<noteq> []"
    and fetch: "fetch w = Some fetchFn"
    and checkIp: "map_of args ''checkIp'' = Some (JStr checkIp)" "checkIp \<noteq> []"
    and res: "fetchFn [] (get_request tok args) = Resolved res" "ok res" "res_json res = Some j"
    and valid: "safeParse NetworkListSchema (Some j) = Inr parsed"
    and items: "data_items j = Some (JArr (map JStr items))"
  shows "\<exists>networkList. opt_prop parsed ''data'' = Some networkList
           \<and> snd (get_execute w args) =
               Inr (text_reply
                 (''Network List Details (ID: '' @ template (opt_prop (Some networkList) ''id'')
                  @ ''):'' @ NL @ NL @ stringify 0 networkList @ NL @ NL
                  @ ''IP Check: '' @ checkIp @ '' ''
                  @ (if checkIp \<in> set items then ''is already present'' else ''is NOT present'')
                  @ '' in the network list.''))"
proof -
  from valid obtain kvs d i n t its e m a where j: "j = JObj kvs"
    and d: "map_of kvs ''data'' = Some (JObj d)"
    and its: "map_of d ''items'' = Some (JArr (map JStr its))"
    and parsed: "parsed = Some (JObj [(''data'',
       JObj [(''id'', JNum i), (''name'', JStr n), (''type'', JStr t),
             (''items'', JArr (map JStr its)), (''last_editor'', JStr e),
             (''last_modified'', JStr m), (''active'', JBool a)])])"
    by (rule safeParse_NetworkListSchema)
  let ?nl = "JObj [(''id'', JNum i), (''name'', JStr n), (''type'', JStr t),
             (''items'', JArr (map JStr its)), (''last_editor'', JStr e),
             (''last_modified'', JStr m), (''active'', JBool a)]"
  have "map JStr items = map JStr its"
    using items j d its by (simp add: data_items_def)
  then have same: "items = its"
    by (simp add: inj_map_eq_map inj_on_def)
  have mem: "(JStr checkIp \<in> JStr ` set its) = (checkIp \<in> set its)"
    by auto
  have "get_respond args res =
      Inr (text_reply
        (''Network List Details (ID: '' @ template (opt_prop (Some ?nl) ''id'')
         @ ''):'' @ NL @ NL @ stringify 0 ?nl @ NL @ NL
         @ ''IP Check: '' @ checkIp @ '' ''
         @ (if checkIp \<in> set its then ''is already present'' else ''is NOT present'')
         @ '' in the network list.''))"
    using res(2,3) valid checkIp
    unfolding get_respond_def parsed
    by (simp add: and_then_def template_def JSON_stringify_def template_str_def mem
          del: stringify.simps)
  then have "snd (get_execute w args) =
      Inr (text_reply
        (''Network List Details (ID: '' @ template (opt_prop (Some ?nl) ''id'')
         @ ''):'' @ NL @ NL @ stringify 0 ?nl @ NL @ NL
         @ ''IP Check: '' @ checkIp @ '' ''
         @ (if checkIp \<in> set items then ''is already present'' else ''is NOT present'')
         @ '' in the network list.''))"
    using get_execute_fetched [OF tok fetch res(1)] same by simp
  moreover have "opt_prop parsed ''data'' = Some ?nl"
    unfolding parsed by simp
  ultimately show ?thesis
    by blast
qed

theorem ip_check_exact_match_witness:
  "snd (get_execute cidr_world cidr_args) =
     Inr (text_reply
       (''Network List Details (ID: 48334):'' @ NL @ NL @ stringify 0 cidr_list @ NL @ NL
        @ ''IP Check: 10.0.0.5 is NOT present in the network list.''))"
proof -
  let ?j = "JObj [(''data'', cidr_list)]"
  have h1: "token cidr_world = Some ''t0''" "''t0'' \<noteq> []"
    by (simp_all add: token_def cidr_world_def with_token_def)
  have h2: "fetch cidr_world = Some (\<lambda>log req. Resolved cidr_response)"
    by (simp add: cidr_world_def)
  have h3: "map_of cidr_args ''checkIp'' = Some (JStr ''10.0.0.5'')" "''10.0.0.5'' \<noteq> []"
    by (simp_all add: cidr_args_def)
  have h4: "(\<lambda>log req. Resolved cidr_response) [] (get_request ''t0'' cidr_args)
      = Resolved cidr_response"
    by simp
  have h5: "ok cidr_response" "res_json cidr_response = Some ?j"
    by (simp_all add: ok_def cidr_response_def)
  have h6: "safeParse NetworkListSchema (Some ?j) = Inr (Some ?j)"
    by (simp add: safeParse_def NetworkListSchema_def NetworkListData_def cidr_list_def Let_def
          parse.simps)
  have h7: "data_items ?j = Some (JArr (map JStr [''10.0.0.0/8'']))"
    by (simp add: data_items_def cidr_list_def)
  have id: "template (opt_prop (Some cidr_list) ''id'') = ''48334''"
    by (simp add: cidr_list_def template_def show_int_def show_nat.simps digit_def)
  show ?thesis
    using ip_check_exact_match [OF h1 h2 h3 h4 h5 h6 h7] id by simp
qed

text \<open>
  C6, as stated, fails for the empty string: \<open>checkIp = ""\<close> is supplied and is one of
  the items, and the reply has neither line, since \<open>if (args.checkIp)\<close> takes the empty
  string for an absent argument.
\<close>

theorem blank_checkIp_no_line:
  "data_items (JObj [(''data'', blank_list)]) = Some (JArr [JStr []])
   \<and> snd (get_execute blank_world blank_args) =
       Inr (text_reply (''Network List Details (ID: 7):'' @ NL @ NL @ stringify 0 blank_list))
   \<and> \<not> sublist ''is already present'' (reply_text (get_execute blank_world blank_args))
   \<and> \<not> sublist ''is NOT present'' (reply_text (get_execute blank_world blank_args))"
proof -
  let ?j = "JObj [(''data'', blank_list)]"
  let ?res = "\<lparr>status = 200, statusText = ''OK'', res_json = Some ?j\<rparr>"
  have tok: "token blank_world = Some ''t0''" "''t0'' \<noteq> []"
    by (simp_all add: token_def blank_world_def with_token_def)
  have fetch: "fetch blank_world = Some (\<lambda>log req. Resolved ?res)"
    by (simp add: blank_world_def)
  have valid: "safeParse NetworkListSchema (Some ?j) = Inr (Some ?j)"
    by (simp add: safeParse_def NetworkListSchema_def NetworkListData_def blank_list_def Let_def
          parse.simps)
  have id: "get_prop (Some blank_list) ''id'' = Inr (Some (JNum 7))"
    "template (Some (JNum 7)) = ''7''"
    by (simp_all add: blank_list_def template_def show_int_def show_nat.simps digit_def)
  have "get_respond blank_args ?res =
      Inr (text_reply (''Network List Details (ID: 7):'' @ NL @ NL @ stringify 0 blank_list))"
    using valid id
    by (simp add: get_respond_def ok_def and_then_def blank_args_def JSON_stringify_def
          template_str_def del: stringify.simps)
  then have run: "get_execute blank_world blank_args =
      ([get_request ''t0'' blank_args],
       Inr (text_reply (''Network List Details (ID: 7):'' @ NL @ NL @ stringify 0 blank_list)))"
    using get_execute_fetched [OF tok fetch, of ?res blank_args] by simp
  have items: "data_items ?j = Some (JArr [JStr []])"
    by (simp add: data_items_def blank_list_def)
  have rtext: "reply_text (get_execute blank_world blank_args) =
      ''Network List Details (ID: 7):'' @ NL @ NL @ stringify 0 blank_list"
    unfolding run by (simp add: reply_text_def text_reply_def)
  have no1: "\<not> sublist ''is already present''
      (''Network List Details (ID: 7):'' @ NL @ NL @ stringify 0 blank_list)"
    by code_simp
  have no2: "\<not> sublist ''is NOT present''
      (''Network List Details (ID: 7):'' @ NL @ NL @ stringify 0 blank_list)"
    by code_simp
  show ?thesis
    using items run rtext no1 no2 by simp
qed



section \<open>\<open>query_http_events\<close> and its time range\<close>

lemma safeParse_HttpEventsResponseSchema:
  assumes "safeParse HttpEventsResponseSchema (Some j) = Inr parsed"
  obtains events where "parsed = Some (JObj [(''data'', JObj [(''httpEvents'', JArr events)])])"
proof -
  have ok: "fst (parse HttpEventsResponseSchema [] (Some j)) = []"
    and out: "parsed = snd (parse HttpEventsResponseSchema [] (Some j))"
    using safeParse_Inr [OF assms] by simp_all
  from ok obtain kvs where "Some j = Some (JObj kvs)"
    unfolding HttpEventsResponseSchema_def by (rule parse_ZObject_ok)
  then have j: "j = JObj kvs"
    by simp
  let ?inner = "ZObject [(''httpEvents'', ZArray HttpEventSchema)]"
  have inner: "fst (parse ?inner ([] @ [JStr ''data'']) (map_of kvs ''data'')) = []"
    using ok unfolding j HttpEventsResponseSchema_def parse_ZObject_Some by simp
  then obtain d where d: "map_of kvs ''data'' = Some (JObj d)"
    by (rule parse_ZObject_ok)
  have "fst (parse (ZArray HttpEventSchema) (([] @ [JStr ''data'']) @ [JStr ''httpEvents''])
          (map_of d ''httpEvents'')) = []"
    using inner unfolding d parse_ZObject_Some by simp
  then obtain events where ev: "snd (parse (ZArray HttpEventSchema)
      (([] @ [JStr ''data'']) @ [JStr ''httpEvents'']) (map_of d ''httpEvents''))
      = Some (JArr events)"
    by (rule parse_ZArray_ok)
  have "parsed = Some (JObj [(''data'', JObj [(''httpEvents'', JArr events)])])"
    using ev by (simp add: out j HttpEventsResponseSchema_def parse_ZObject_Some d)
  then show ?thesis
    by (rule that)
qed

text \<open>
  C8. A successful \<open>query_http_events\<close> replies with the header \<open>HTTP Events from <begin>
  to <end>\<close>, where each of the two is the string passed for it, or its default when it is
  omitted; the defaults are the ISO renderings of two instants taken from the one clock
  reading of the invocation, the later being that reading and the earlier exactly five
  minutes before it.
\<close>

theorem http_events_header:
  assumes tok: "token w = Some tok" "tok \<noteq> []"
    and fetch: "fetch w = Some fetchFn"
    and begin_arg: "map_of args ''begin'' = None \<or> map_of args ''begin'' = Some (JStr b)"
    and end_arg: "map_of args ''end'' = None \<or> map_of args ''end'' = Some (JStr e)"
    and res: "fetchFn []
                (http_events_request tok
                  (Some (JStr (range_text (map_of args ''begin'') (defaultBegin w))))
                  (Some (JStr (range_text (map_of args ''end'') (defaultEnd w)))))
                = Resolved res" "ok res" "res_json res = Some j"
    and valid: "safeParse HttpEventsResponseSchema (Some j) = Inr parsed"
  shows "(\<exists>events. opt_prop (opt_prop parsed ''data'') ''httpEvents'' = Some (JArr events)
           \<and> snd (http_events_execute w args) =
               Inr (text_reply
                 (''HTTP Events from '' @ range_text (map_of args ''begin'') (defaultBegin w)
                  @ '' to '' @ range_text (map_of args ''end'') (defaultEnd w)
                  @ NL @ NL @ ''Raw data:'' @ NL @ stringify 0 (JArr events))))
         \<and> (\<exists>t_begin t_end. defaultBegin w = toISOString t_begin
               \<and> defaultEnd w = toISOString t_end
               \<and> t_end = now w \<and> t_end - t_begin = 5 * 60 * 1000)"
proof -
  let ?b = "range_text (map_of args ''begin'') (defaultBegin w)"
  let ?e = "range_text (map_of args ''end'') (defaultEnd w)"
  from valid obtain events
    where parsed: "parsed = Some (JObj [(''data'', JObj [(''httpEvents'', JArr events)])])"
    by (rule safeParse_HttpEventsResponseSchema)
  have b: "nullish (map_of args ''begin'') (Some (JStr (defaultBegin w))) = Some (JStr ?b)"
    using begin_arg by (auto simp: range_text_def)
  have e: "nullish (map_of args ''end'') (Some (JStr (defaultEnd w))) = Some (JStr ?e)"
    using end_arg by (auto simp: range_text_def)
  have "http_events_respond (Some (JStr ?b)) (Some (JStr ?e)) res =
      Inr (text_reply
        (''HTTP Events from '' @ ?b @ '' to '' @ ?e
         @ NL @ NL @ ''Raw data:'' @ NL @ stringify 0 (JArr events)))"
    using res(2,3) valid unfolding http_events_respond_def parsed
    by (simp add: and_then_def template_def JSON_stringify_def template_str_def
          del: stringify.simps)
  then have "snd (http_events_execute w args) =
      Inr (text_reply
        (''HTTP Events from '' @ ?b @ '' to '' @ ?e
         @ NL @ NL @ ''Raw data:'' @ NL @ stringify 0 (JArr events)))"
    using tok fetch res(1) b e by (simp add: http_events_execute_def Let_def)
  moreover have "opt_prop (opt_prop parsed ''data'') ''httpEvents'' = Some (JArr events)"
    unfolding parsed by simp
  moreover have "defaultBegin w = toISOString (now w - 5 * 60 * 1000)
      \<and> defaultEnd w = toISOString (now w)
      \<and> now w = now w \<and> now w - (now w - 5 * 60 * 1000) = 5 * 60 * 1000"
    by (simp add: defaultBegin_def defaultEnd_def)
  ultimately show ?thesis
    by blast
qed

lemma toISOString_1700000000000: "toISOString 1700000000000 = ''2023-11-14T22:13:20.000Z''"
  by code_simp

lemma toISOString_1699999700000: "toISOString 1699999700000 = ''2023-11-14T22:08:20.000Z''"
  by code_simp

theorem http_events_header_witness:
  "snd (http_events_execute events_world range_args) =
     Inr (text_reply
       (''HTTP Events from 2023-11-14T00:00:00Z to 2023-11-14T01:00:00Z''
        @ NL @ NL @ ''Raw data:'' @ NL @ stringify 0 (JArr [one_event])))
   \<and> snd (http_events_execute events_world []) =
     Inr (text_reply
       (''HTTP Events from 2023-11-14T22:08:20.000Z to 2023-11-14T22:13:20.000Z''
        @ NL @ NL @ ''Raw data:'' @ NL @ stringify 0 (JArr [one_event])))"
proof -
  let ?j = "JObj [(''data'', JObj [(''httpEvents'', JArr [one_event])])]"
  let ?f = "\<lambda>log req. Resolved events_response"
  have h1: "token events_world = Some ''t0''" "''t0'' \<noteq> []"
    by (simp_all add: token_def events_world_def with_token_def)
  have h2: "fetch events_world = Some ?f"
    by (simp add: events_world_def)
  have h3: "map_of range_args ''begin'' = None
      \<or> map_of range_args ''begin'' = Some (JStr ''2023-11-14T00:00:00Z'')"
    "map_of range_args ''end'' = None
      \<or> map_of range_args ''end'' = Some (JStr ''2023-11-14T01:00:00Z'')"
    by (simp_all add: range_args_def)
  have h4: "map_of [] ''begin'' = None \<or> map_of [] ''begin'' = Some (JStr [])"
    "map_of [] ''end'' = None \<or> map_of [] ''end'' = Some (JStr [])"
    by simp_all
  have h5: "?f [] req = Resolved events_response" for req
    by simp
  have h6: "ok events_response" "res_json events_response = Some ?j"
    by (simp_all add: ok_def events_response_def)
  have h7: "safeParse HttpEventsResponseSchema (Some ?j) = Inr (Some ?j)"
    by (simp add: safeParse_def HttpEventsResponseSchema_def HttpEventSchema_def one_event_def
          Let_def parse.simps)
  have d: "defaultBegin events_world = ''2023-11-14T22:08:20.000Z''"
    "defaultEnd events_world = ''2023-11-14T22:13:20.000Z''"
    using toISOString_1700000000000 toISOString_1699999700000
    by (simp_all add: defaultBegin_def defaultEnd_def events_world_def)
  have r: "range_text (map_of range_args ''begin'') x = ''2023-11-14T00:00:00Z''"
    "range_text (map_of range_args ''end'') x = ''2023-11-14T01:00:00Z''"
    "range_text (map_of [] k) x = x" for x k
    by (simp_all add: range_text_def range_args_def)
  have ev: "events = [one_event]"
    if "opt_prop (opt_prop (Some ?j) ''data'') ''httpEvents'' = Some (JArr events)" for events
    using that by simp
  from http_events_header [OF h1 h2 h3 h5 h6 h7] obtain events1
    where "opt_prop (opt_prop (Some ?j) ''data'') ''httpEvents'' = Some (JArr events1)"
      and "snd (http_events_execute events_world range_args) =
        Inr (text_reply
          (''HTTP Events from ''
           @ range_text (map_of range_args ''begin'') (defaultBegin events_world)
           @ '' to '' @ range_text (map_of range_args ''end'') (defaultEnd events_world)
           @ NL @ NL @ ''Raw data:'' @ NL @ stringify 0 (JArr events1)))"
    by blast
  then have supplied: "snd (http_events_execute events_world range_args) =
      Inr (text_reply
        (''HTTP Events from '' @ ''2023-11-14T00:00:00Z'' @ '' to '' @ ''2023-11-14T01:00:00Z''
         @ NL @ NL @ ''Raw data:'' @ NL @ stringify 0 (JArr [one_event])))"
    using ev [of events1] by (simp only: r)
  from http_events_header [OF h1 h2 h4 h5 h6 h7] obtain events2
    where "opt_prop (opt_prop (Some ?j) ''data'') ''httpEvents'' = Some (JArr events2)"
      and "snd (http_events_execute events_world []) =
        Inr (text_reply
          (''HTTP Events from '' @ range_text (map_of [] ''begin'') (defaultBegin events_world)
           @ '' to '' @ range_text (map_of [] ''end'') (defaultEnd events_world)
           @ NL @ NL @ ''Raw data:'' @ NL @ stringify 0 (JArr events2)))"
    by blast
  then have omitted: "snd (http_events_execute events_world []) =
      Inr (text_reply
        (''HTTP Events from '' @ ''2023-11-14T22:08:20.000Z'' @ '' to ''
         @ ''2023-11-14T22:13:20.000Z''
         @ NL @ NL @ ''Raw data:'' @ NL @ stringify 0 (JArr [one_event])))"
    using ev [of events2] by (simp only: r d)
  show ?thesis
    using supplied omitted by (simp del: stringify.simps)
qed



section \<open>Validation of the upstream responses\<close>

lemma final_items_cases:
  assumes "final_items f tok args = (l, r)"
  shows "(l = [] \<and> r = Inr (map_of args ''newItems'')) \<or> l = [get_request tok args]"
  using assms by (auto simp: final_items_def Let_def split: if_splits)



text \<open>The five blocks after the main \<open>fetch\<close>: the reply to a schema mismatch.\<close>

lemma http_events_respond_mismatch:
  assumes "ok res" "res_json res = Some j" "safeParse HttpEventsResponseSchema (Some j) = Inl issues"
  shows "http_events_respond b e res = Inr (unexpected_format issues)"
  using assms by (simp add: http_events_respond_def)

lemma list_respond_mismatch:
  assumes "ok res" "res_json res = Some j" "safeParse ListResponseSchema (Some j) = Inl issues"
  shows "list_respond res = Inr (unexpected_format issues)"
  using assms by (simp add: list_respond_def)

lemma get_respond_mismatch:
  assumes "ok res" "res_json res = Some j" "safeParse NetworkListSchema (Some j) = Inl issues"
  shows "get_respond args res = Inr (unexpected_format issues)"
  using assms by (simp add: get_respond_def)

lemma update_respond_mismatch:
  assumes "ok res" "res_json res = Some j" "safeParse StateDataSchema (Some j) = Inl issues"
  shows "update_respond res = Inr (unexpected_format issues)"
  using assms by (simp add: update_respond_def)

lemma create_respond_mismatch:
  assumes "ok res" "res_json res = Some j" "safeParse StateDataSchema (Some j) = Inl issues"
  shows "create_respond res = Inr (unexpected_format issues)"
  using assms by (simp add: create_respond_def)

text \<open>The same blocks read a 2xx body through the result of its validation only.\<close>

lemma http_events_respond_validated:
  assumes "ok res" "ok res'" "res_json res = Some j" "res_json res' = Some j'"
    and "safeParse HttpEventsResponseSchema (Some j) = safeParse HttpEventsResponseSchema (Some j')"
  shows "http_events_respond b e res = http_events_respond b e res'"
  using assms by (simp add: http_events_respond_def)

lemma list_respond_validated:
  assumes "ok res" "ok res'" "res_json res = Some j" "res_json res' = Some j'"
    and "safeParse ListResponseSchema (Some j) = safeParse ListResponseSchema (Some j')"
  shows "list_respond res = list_respond res'"
  using assms by (simp add: list_respond_def)

lemma get_respond_validated:
  assumes "ok res" "ok res'" "res_json res = Some j" "res_json res' = Some j'"
    and "safeParse NetworkListSchema (Some j) = safeParse NetworkListSchema (Some j')"
  shows "get_respond args res = get_respond args res'"
  using assms by (simp add: get_respond_def)

lemma update_respond_validated:
  assumes "ok res" "ok res'" "res_json res = Some j" "res_json res' = Some j'"
    and "safeParse StateDataSchema (Some j) = safeParse StateDataSchema (Some j')"
  shows "update_respond res = update_respond res'"
  using assms by (simp add: update_respond_def)

lemma create_respond_validated:
  assumes "ok res" "ok res'" "res_json res = Some j" "res_json res' = Some j'"
    and "safeParse StateDataSchema (Some j) = safeParse StateDataSchema (Some j')"
  shows "create_respond res = create_respond res'"
  using assms by (simp add: create_respond_def)

lemma response_shapes_cases:
  assumes "(t, S) \<in> set response_shapes"
  obtains
    "t = createListHttpEventsTool ''query_http_events'' query_http_events_description"
      "S = HttpEventsResponseSchema"
  | "t = createListNetworkListTool ''list_network_lists'' list_network_lists_description"
      "S = ListResponseSchema"
  | "t = createCreateNetworkListTool ''create_network_list'' create_network_list_description"
      "S = StateDataSchema"
  | "t = createGetNetworkListTool ''get_network_list'' get_network_list_description"
      "S = NetworkListSchema"
  | "t = createUpdateNetworkListTool ''update_network_list'' update_network_list_description"
      "S = StateDataSchema"
  using assms unfolding response_shapes_def tools_def by auto

lemma name_simps:
  "name (createListHttpEventsTool n d) = n"
  "name (createListNetworkListTool n d) = n"
  "name (createCreateNetworkListTool n d) = n"
  "name (createGetNetworkListTool n d) = n"
  "name (createUpdateNetworkListTool n d) = n"
  by (simp_all add: createListHttpEventsTool_def createListNetworkListTool_def
        createCreateNetworkListTool_def createGetNetworkListTool_def
        createUpdateNetworkListTool_def)

text \<open>
  What an invocation whose last request is a main request resolves to: the block after
  the main \<open>fetch\<close>, applied to the response to that request.
\<close>

lemma http_events_execute_main:
  assumes "fetch w = Some f" "http_events_execute w args = (log @ [req], out)"
  obtains b e where "out = (case f log req of Rejected \<Rightarrow> Inl FetchFailed
      | Resolved res \<Rightarrow> http_events_respond b e res)"
  using assms
  by (auto simp: http_events_execute_def Let_def split: option.splits if_splits)

lemma list_execute_main:
  assumes "fetch w = Some f" "list_execute w args = (log @ [req], out)"
  shows "out = (case f log req of Rejected \<Rightarrow> Inl FetchFailed
      | Resolved res \<Rightarrow> list_respond res)"
  using assms
  by (auto simp: list_execute_def Let_def split: option.splits if_splits)

lemma create_execute_main:
  assumes "fetch w = Some f" "create_execute w args = (log @ [req], out)"
  shows "out = (case f log req of Rejected \<Rightarrow> Inl FetchFailed
      | Resolved res \<Rightarrow> create_respond res)"
  using assms
  by (auto simp: create_execute_def Let_def split: option.splits if_splits)

lemma get_execute_main:
  assumes "fetch w = Some f" "get_execute w args = (log @ [req], out)"
  shows "out = (case f log req of Rejected \<Rightarrow> Inl FetchFailed
      | Resolved res \<Rightarrow> get_respond args res)"
  using assms
  by (auto simp: get_execute_def Let_def split: option.splits if_splits)

lemma update_execute_main:
  assumes "fetch w = Some f" "update_execute w args = (log @ [req], out)"
    and "method req \<noteq> GET"
  shows "out = (case f log req of Rejected \<Rightarrow> Inl FetchFailed
      | Resolved res \<Rightarrow> update_respond res)"
proof -
  from assms(1,2) obtain tok where tok: "token w = Some tok" "tok \<noteq> []"
    by (auto simp: update_execute_def split: option.splits if_splits)
  obtain l r where fi: "final_items f tok args = (l, r)"
    by (cases "final_items f tok args")
  show ?thesis
  proof (cases r)
    case (Inl err)
    then have "update_execute w args = (l, Inl err)"
      using tok assms(1) fi by (simp add: update_execute_def)
    then have "l = log @ [req]"
      using assms(2) by simp
    moreover have "l = [get_request tok args]"
      using final_items_cases [OF fi] Inl by auto
    ultimately have "req = get_request tok args"
      by simp
    then show ?thesis
      using assms(3) by (simp add: method_get_request)
  next
    case (Inr finalItems)
    then have "update_execute w args =
        (l @ [patch_request tok args finalItems],
         case f l (patch_request tok args finalItems) of
           Rejected \<Rightarrow> Inl FetchFailed | Resolved res \<Rightarrow> update_respond res)"
      using tok assms(1) fi by (simp add: update_execute_def Let_def)
    then show ?thesis
      using assms(2) by auto
  qed
qed

text \<open>
  C7, amended. For every tool, when the response to its main request (any request but the GET
  that precedes the PATCH of \<open>update_network_list\<close>) is 2xx and its JSON body fails the
  shape the tool declares, the invocation resolves to the one text \<open>Unexpected response
  format from Azion API: \<close> followed by the validator's message; the reply is made of the
  issues alone.
\<close>

theorem schema_mismatch_reply:
  assumes shape: "(t, S) \<in> set response_shapes"
    and fetch: "fetch w = Some fetchFn"
    and run: "execute t w args = (log @ [req], out)"
    and main: "\<not> preliminary t req"
    and res: "fetchFn log req = Resolved res" "ok res" "res_json res = Some j"
    and mismatch: "safeParse S (Some j) = Inl issues"
  shows "out = Inr \<lparr>content = [\<lparr>type = ''text'',
           text = ''Unexpected response format from Azion API: '' @ error_message issues\<rparr>]\<rparr>
         \<and> sublist ''Unexpected response format from Azion API''
             (''Unexpected response format from Azion API: '' @ error_message issues)"
proof -
  have "out = Inr (unexpected_format issues)"
    using shape
  proof (cases rule: response_shapes_cases)
    case 1
    then obtain b e where "out = (case fetchFn log req of Rejected \<Rightarrow> Inl FetchFailed
        | Resolved res \<Rightarrow> http_events_respond b e res)"
      using run fetch by (auto simp: execute_simps elim: http_events_execute_main)
    then show ?thesis
      using res mismatch 1 by (simp add: http_events_respond_mismatch)
  next
    case 2
    then have "out = (case fetchFn log req of Rejected \<Rightarrow> Inl FetchFailed
        | Resolved res \<Rightarrow> list_respond res)"
      using run fetch by (auto simp: execute_simps intro: list_execute_main)
    then show ?thesis
      using res mismatch 2 by (simp add: list_respond_mismatch)
  next
    case 3
    then have "out = (case fetchFn log req of Rejected \<Rightarrow> Inl FetchFailed
        | Resolved res \<Rightarrow> create_respond res)"
      using run fetch by (auto simp: execute_simps intro: create_execute_main)
    then show ?thesis
      using res mismatch 3 by (simp add: create_respond_mismatch)
  next
    case 4
    then have "out = (case fetchFn log req of Rejected \<Rightarrow> Inl FetchFailed
        | Resolved res \<Rightarrow> get_respond args res)"
      using run fetch by (auto simp: execute_simps intro: get_execute_main)
    then show ?thesis
      using res mismatch 4 by (simp add: get_respond_mismatch)
  next
    case 5
    then have "method req \<noteq> GET"
      using main by (simp add: preliminary_def name_simps)
    then have "out = (case fetchFn log req of Rejected \<Rightarrow> Inl FetchFailed
        | Resolved res \<Rightarrow> update_respond res)"
      using run fetch 5 by (auto simp: execute_simps intro: update_execute_main)
    then show ?thesis
      using res mismatch 5 by (simp add: update_respond_mismatch)
  qed
  moreover have "sublist ''Unexpected response format from Azion API''
      (''Unexpected response format from Azion API: '' @ error_message issues)"
    by (rule prefix_imp_sublist) simp
  ultimately show ?thesis
    by (simp add: unexpected_format_def text_reply_def)
qed



theorem schema_mismatch_reply_witness:
  "snd (execute (tools ! 1) mismatch_world []) =
     Inr \<lparr>content = [\<lparr>type = ''text'',
       text = ''Unexpected response format from Azion API: ''
         @ error_message
             [invalid_type ''array'' (Some (JObj [(''id'', JNum 1)])) [JStr ''results'']]\<rparr>]\<rparr>
   \<and> sublist ''Unexpected response format from Azion API''
       (''Unexpected response format from Azion API: ''
         @ error_message
             [invalid_type ''array'' (Some (JObj [(''id'', JNum 1)])) [JStr ''results'']])"
proof -
  let ?j = "JObj [(''count'', JNum 1), (''results'', JObj [(''id'', JNum 1)])]"
  let ?f = "\<lambda>log req. Resolved mismatch_response"
  have h1: "(tools ! 1, ListResponseSchema) \<in> set response_shapes"
    by (simp add: response_shapes_def tools_def)
  have h2: "fetch mismatch_world = Some ?f"
    by (simp add: mismatch_world_def)
  have h3: "execute (tools ! 1) mismatch_world []
      = ([] @ [list_request ''t0''], list_respond mismatch_response)"
    by (simp add: tools_def execute_simps list_execute_def token_def mismatch_world_def
          with_token_def)
  have h4: "\<not> preliminary (tools ! 1) (list_request ''t0'')"
    by (simp add: preliminary_def tools_def name_simps)
  have h5: "?f [] (list_request ''t0'') = Resolved mismatch_response"
    by simp
  have h6: "ok mismatch_response" "res_json mismatch_response = Some ?j"
    by (simp_all add: ok_def mismatch_response_def)
  have h7: "safeParse ListResponseSchema (Some ?j)
      = Inl [invalid_type ''array'' (Some (JObj [(''id'', JNum 1)])) [JStr ''results'']]"
    by (simp add: safeParse_def ListResponseSchema_def parse.simps Let_def)
  show ?thesis
    using schema_mismatch_reply [OF h1 h2 h3 h4 h5 h6 h7] h3 by simp
qed

lemma token_fetch_update: "token (w\<lparr>fetch := g\<rparr>) = token w"
  by (simp add: token_def split: option.split)

lemma defaults_fetch_update:
  "defaultBegin (w\<lparr>fetch := g\<rparr>) = defaultBegin w"
  "defaultEnd (w\<lparr>fetch := g\<rparr>) = defaultEnd w"
  by (simp_all add: defaultBegin_def defaultEnd_def)

text \<open>Two upstreams whose 2xx bodies validate alike against \<open>S\<close>.\<close>

lemma main_step:
  assumes "\<exists>res res' j j'. f log req = Resolved res \<and> f' log req = Resolved res'
        \<and> ok res \<and> ok res' \<and> res_json res = Some j \<and> res_json res' = Some j'
        \<and> safeParse S (Some j) = safeParse S (Some j')"
    and "\<And>res res' j j'. ok res \<Longrightarrow> ok res' \<Longrightarrow> res_json res = Some j \<Longrightarrow>
        res_json res' = Some j' \<Longrightarrow> safeParse S (Some j) = safeParse S (Some j') \<Longrightarrow>
        respond res = respond res'"
  shows "(case f' log req of Rejected \<Rightarrow> Inl FetchFailed | Resolved res \<Rightarrow> respond res)
      = (case f log req of Rejected \<Rightarrow> Inl FetchFailed | Resolved res \<Rightarrow> respond res)"
proof -
  from assms(1) obtain res res' j j'
    where "f log req = Resolved res" "f' log req = Resolved res'"
      "ok res" "ok res'" "res_json res = Some j" "res_json res' = Some j'"
      "safeParse S (Some j) = safeParse S (Some j')"
    by blast
  then show ?thesis
    using assms(2) [of res res' j j'] by simp
qed

lemma http_events_execute_validated:
  assumes "\<And>req. \<exists>res res' j j'. f [] req = Resolved res \<and> f' [] req = Resolved res'
        \<and> ok res \<and> ok res' \<and> res_json res = Some j \<and> res_json res' = Some j'
        \<and> safeParse HttpEventsResponseSchema (Some j)
            = safeParse HttpEventsResponseSchema (Some j')"
  shows "http_events_execute (w\<lparr>fetch := Some f'\<rparr>) args
       = http_events_execute (w\<lparr>fetch := Some f\<rparr>) args"
proof (cases "token w")
  case None
  then show ?thesis
    by (simp add: http_events_execute_def token_fetch_update Let_def)
next
  case (Some tok)
  have "(case f' [] req of Rejected \<Rightarrow> Inl FetchFailed
          | Resolved res \<Rightarrow> http_events_respond b e res)
      = (case f [] req of Rejected \<Rightarrow> Inl FetchFailed
          | Resolved res \<Rightarrow> http_events_respond b e res)" for req b e
    using assms [of req] by (rule main_step) (rule http_events_respond_validated)
  then show ?thesis
    using Some
    by (simp add: http_events_execute_def token_fetch_update defaults_fetch_update Let_def)
qed

lemma list_execute_validated:
  assumes "\<And>req. \<exists>res res' j j'. f [] req = Resolved res \<and> f' [] req = Resolved res'
        \<and> ok res \<and> ok res' \<and> res_json res = Some j \<and> res_json res' = Some j'
        \<and> safeParse ListResponseSchema (Some j) = safeParse ListResponseSchema (Some j')"
  shows "list_execute (w\<lparr>fetch := Some f'\<rparr>) args = list_execute (w\<lparr>fetch := Some f\<rparr>) args"
proof (cases "token w")
  case None
  then show ?thesis
    by (simp add: list_execute_def token_fetch_update)
next
  case (Some tok)
  have "(case f' [] req of Rejected \<Rightarrow> Inl FetchFailed | Resolved res \<Rightarrow> list_respond res)
      = (case f [] req of Rejected \<Rightarrow> Inl FetchFailed | Resolved res \<Rightarrow> list_respond res)"
    for req
    using assms [of req] by (rule main_step) (rule list_respond_validated)
  then show ?thesis
    using Some by (simp add: list_execute_def token_fetch_update Let_def)
qed

lemma create_execute_validated:
  assumes "\<And>req. \<exists>res res' j j'. f [] req = Resolved res \<and> f' [] req = Resolved res'
        \<and> ok res \<and> ok res' \<and> res_json res = Some j \<and> res_json res' = Some j'
        \<and> safeParse StateDataSchema (Some j) = safeParse StateDataSchema (Some j')"
  shows "create_execute (w\<lparr>fetch := Some f'\<rparr>) args
       = create_execute (w\<lparr>fetch := Some f\<rparr>) args"
proof (cases "token w")
  case None
  then show ?thesis
    by (simp add: create_execute_def token_fetch_update)
next
  case (Some tok)
  have "(case f' [] req of Rejected \<Rightarrow> Inl FetchFailed | Resolved res \<Rightarrow> create_respond res)
      = (case f [] req of Rejected \<Rightarrow> Inl FetchFailed | Resolved res \<Rightarrow> create_respond res)"
    for req
    using assms [of req] by (rule main_step) (rule create_respond_validated)
  then show ?thesis
    using Some by (simp add: create_execute_def token_fetch_update Let_def)
qed

lemma get_execute_validated:
  assumes "\<And>req. \<exists>res res' j j'. f [] req = Resolved res \<and> f' [] req = Resolved res'
        \<and> ok res \<and> ok res' \<and> res_json res = Some j \<and> res_json res' = Some j'
        \<and> safeParse NetworkListSchema (Some j) = safeParse NetworkListSchema (Some j')"
  shows "get_execute (w\<lparr>fetch := Some f'\<rparr>) args = get_execute (w\<lparr>fetch := Some f\<rparr>) args"
proof (cases "token w")
  case None
  then show ?thesis
    by (simp add: get_execute_def token_fetch_update)
next
  case (Some tok)
  have "(case f' [] req of Rejected \<Rightarrow> Inl FetchFailed | Resolved res \<Rightarrow> get_respond args res)
      = (case f [] req of Rejected \<Rightarrow> Inl FetchFailed | Resolved res \<Rightarrow> get_respond args res)"
    for req
    using assms [of req] by (rule main_step) (rule get_respond_validated)
  then show ?thesis
    using Some by (simp add: get_execute_def token_fetch_update Let_def)
qed

lemma update_execute_validated:
  assumes get: "\<And>log req. method req = GET \<Longrightarrow> f' log req = f log req"
    and patch: "\<And>log req. method req \<noteq> GET \<Longrightarrow>
      \<exists>res res' j j'. f log req = Resolved res \<and> f' log req = Resolved res'
        \<and> ok res \<and> ok res' \<and> res_json res = Some j \<and> res_json res' = Some j'
        \<and> safeParse StateDataSchema (Some j) = safeParse StateDataSchema (Some j')"
  shows "update_execute (w\<lparr>fetch := Some f'\<rparr>) args
       = update_execute (w\<lparr>fetch := Some f\<rparr>) args"
proof (cases "token w")
  case None
  then show ?thesis
    by (simp add: update_execute_def token_fetch_update)
next
  case (Some tok)
  have "f' [] (get_request tok args) = f [] (get_request tok args)"
    by (rule get) (rule method_get_request)
  then have fi: "final_items f' tok args = final_items f tok args"
    by (simp add: final_items_def Let_def)
  obtain l r where lr: "final_items f tok args = (l, r)"
    by (cases "final_items f tok args")
  show ?thesis
  proof (cases r)
    case (Inl err)
    then show ?thesis
      using Some fi lr by (simp add: update_execute_def token_fetch_update)
  next
    case (Inr finalItems)
    have "method (patch_request tok args finalItems) \<noteq> GET"
      by (simp add: patch_request_def)
    from patch [OF this, of l]
    have "(case f' l (patch_request tok args finalItems) of
            Rejected \<Rightarrow> Inl FetchFailed | Resolved res \<Rightarrow> update_respond res)
        = (case f l (patch_request tok args finalItems) of
            Rejected \<Rightarrow> Inl FetchFailed | Resolved res \<Rightarrow> update_respond res)"
      by (rule main_step) (rule update_respond_validated)
    then show ?thesis
      using Some fi lr Inr by (simp add: update_execute_def token_fetch_update Let_def)
  qed
qed

text \<open>
  C3, amended. For every tool, the JSON body of a 2xx response to its main request bears
  on what the invocation does only through the result of validating it against the
  shape the tool declares: two upstreams that answer the preliminary GET of
  \<open>update_network_list\<close> alike, and every main request with 2xx bodies that validate alike,
  lead to the same requests and the same reply.
\<close>

theorem validated_before_rendered:
  assumes shape: "(t, S) \<in> set response_shapes"
    and prelim: "\<And>log req. preliminary t req \<Longrightarrow> f' log req = f log req"
    and main: "\<And>log req. \<not> preliminary t req \<Longrightarrow>
      \<exists>res res' j j'. f log req = Resolved res \<and> f' log req = Resolved res'
        \<and> ok res \<and> ok res' \<and> res_json res = Some j \<and> res_json res' = Some j'
        \<and> safeParse S (Some j) = safeParse S (Some j')"
  shows "execute t (w\<lparr>fetch := Some f'\<rparr>) args = execute t (w\<lparr>fetch := Some f\<rparr>) args"
  using shape
proof (cases rule: response_shapes_cases)
  case 1
  then have "\<not> preliminary t req" for req
    by (simp add: preliminary_def name_simps)
  then show ?thesis
    using main 1 by (simp add: execute_simps http_events_execute_validated)
next
  case 2
  then have "\<not> preliminary t req" for req
    by (simp add: preliminary_def name_simps)
  then show ?thesis
    using main 2 by (simp add: execute_simps list_execute_validated)
next
  case 3
  then have "\<not> preliminary t req" for req
    by (simp add: preliminary_def name_simps)
  then show ?thesis
    using main 3 by (simp add: execute_simps create_execute_validated)
next
  case 4
  then have "\<not> preliminary t req" for req
    by (simp add: preliminary_def name_simps)
  then show ?thesis
    using main 4 by (simp add: execute_simps get_execute_validated)
next
  case 5
  then have p: "preliminary t req = (method req = GET)" for req
    by (simp add: preliminary_def name_simps)
  have "update_execute (w\<lparr>fetch := Some f'\<rparr>) args
      = update_execute (w\<lparr>fetch := Some f\<rparr>) args"
  proof (rule update_execute_validated)
    show "f' log req = f log req" if "method req = GET" for log req
      using that prelim [of req log] by (simp add: p)
    show "\<exists>res res' j j'. f log req = Resolved res \<and> f' log req = Resolved res'
        \<and> ok res \<and> ok res' \<and> res_json res = Some j \<and> res_json res' = Some j'
        \<and> safeParse StateDataSchema (Some j) = safeParse StateDataSchema (Some j')"
      if "method req \<noteq> GET" for log req
      using that main [of req log] 5(2) by (simp add: p)
  qed
  then show ?thesis
    by (simp add: 5 execute_simps)
qed



theorem validated_before_rendered_witness:
  "execute (tools ! 1) (mismatch_world\<lparr>fetch := Some empty_listing_extra\<rparr>) []
     = execute (tools ! 1) (mismatch_world\<lparr>fetch := Some empty_listing\<rparr>) []"
proof -
  have h1: "(tools ! 1, ListResponseSchema) \<in> set response_shapes"
    by (simp add: response_shapes_def tools_def)
  have h2: "empty_listing_extra log req = empty_listing log req"
    if "preliminary (tools ! 1) req" for log req
    using that by (simp add: preliminary_def tools_def name_simps)
  let ?j = "JObj [(''count'', JNum 0), (''results'', JArr [])]"
  let ?j' = "JObj [(''results'', JArr []), (''next'', JNull), (''count'', JNum 0)]"
  have same: "safeParse ListResponseSchema (Some ?j) = safeParse ListResponseSchema (Some ?j')"
    by (simp add: safeParse_def ListResponseSchema_def parse.simps Let_def)
  have h3: "\<exists>res res' j j'. empty_listing log req = Resolved res
      \<and> empty_listing_extra log req = Resolved res'
      \<and> ok res \<and> ok res' \<and> res_json res = Some j \<and> res_json res' = Some j'
      \<and> safeParse ListResponseSchema (Some j) = safeParse ListResponseSchema (Some j')"
    if "\<not> preliminary (tools ! 1) req" for log req
    using same by (simp add: empty_listing_def empty_listing_extra_def ok_def)
  show ?thesis
    using h1 h2 h3 by (rule validated_before_rendered)
qed

lemma not_continuation_B: "\<not> continuation CHR ''B''"
  by (simp add: continuation_def)

lemma final_items_string_items:
  assumes "f [] (get_request tok merge_args) = Resolved string_items_response"
  shows "final_items f tok merge_args
      = ([get_request tok merge_args], Inr (Some (JArr [JStr ''A'', JStr ''B'', JStr ''C''])))"
proof -
  have set: "new_Set [JStr ''A'', JStr ''B'', JStr ''B'', JStr ''C'']
      = [JStr ''A'', JStr ''B'', JStr ''C'']"
    by (simp add: new_Set_def Set_add_def)
  have args: "map_of merge_args ''replaceAll'' = None"
    "map_of merge_args ''newItems'' = Some (JArr [JStr ''B'', JStr ''C''])"
    by (simp_all add: merge_args_def)
  show ?thesis
    using assms
    by (simp add: final_items_def args ok_def string_items_response_def and_then_def
          not_continuation_B set Let_def)
qed

lemma string_items_mismatch:
  "ok string_items_response"
  "isl (safeParse NetworkListSchema (res_json string_items_response))"
  "isl (safeParse StateDataSchema (res_json string_items_response))"
  by (simp_all add: ok_def safeParse_def NetworkListSchema_def StateDataSchema_def
        NetworkListData_def string_items_response_def parse.simps Let_def)

text \<open>
  C3, as stated, fails on the preliminary GET of \<open>update_network_list\<close>: a 2xx body whose
  \<open>data.items\<close> is the string \<open>"AB"\<close> passes neither declared shape of a network list,
  and its characters still reach the body of the PATCH.
\<close>

theorem preliminary_get_unvalidated:
  "isl (safeParse NetworkListSchema (res_json string_items_response))
   \<and> isl (safeParse StateDataSchema (res_json string_items_response))
   \<and> patch_items (update_execute string_items_world merge_args)
       = Some [JStr ''A'', JStr ''B'', JStr ''C'']"
proof -
  let ?f = "\<lambda>log req. if method req = GET then Resolved string_items_response else Rejected"
  have tok: "token string_items_world = Some ''t0''" "''t0'' \<noteq> []"
    by (simp_all add: token_def string_items_world_def with_token_def)
  have fetch: "fetch string_items_world = Some ?f"
    by (simp add: string_items_world_def)
  have "?f [] (get_request ''t0'' merge_args) = Resolved string_items_response"
    by (simp add: method_get_request)
  then have "final_items ?f ''t0'' merge_args
      = ([get_request ''t0'' merge_args], Inr (Some (JArr [JStr ''A'', JStr ''B'', JStr ''C''])))"
    by (rule final_items_string_items)
  then have "fst (update_execute string_items_world merge_args)
      = [get_request ''t0'' merge_args]
        @ [patch_request ''t0'' merge_args (Some (JArr [JStr ''A'', JStr ''B'', JStr ''C'']))]"
    by (rule update_execute_log [OF tok fetch])
  then have "patch_items (update_execute string_items_world merge_args)
      = Some [JStr ''A'', JStr ''B'', JStr ''C'']"
    by (rule patch_items_log) (simp add: method_get_request)
  then show ?thesis
    using string_items_mismatch by simp
qed

text \<open>
  C7, as stated, fails on the same request: the 2xx body of the preliminary GET does not
  conform to the \<open>{state, data}\<close> shape that \<open>update_network_list\<close> declares, and the tool
  goes on to the PATCH and replies with its success text.
\<close>

theorem preliminary_mismatch_no_diagnostic:
  "ok string_items_response
   \<and> isl (safeParse StateDataSchema (res_json string_items_response))
   \<and> fst (update_execute patched_world merge_args)
       = [get_request ''t0'' merge_args,
          patch_request ''t0'' merge_args (Some (JArr [JStr ''A'', JStr ''B'', JStr ''C'']))]
   \<and> snd (update_execute patched_world merge_args)
       = Inr (text_reply (''Successfully updated network list (State: pending).''
           @ NL @ NL @ stringify 0 blank_list))
   \<and> \<not> sublist ''Unexpected response format from Azion API''
         (reply_text (update_execute patched_world merge_args))"
proof -
  let ?f = "\<lambda>log req.
    if method req = GET then Resolved string_items_response else Resolved patched_response"
  let ?patch = "patch_request ''t0'' merge_args (Some (JArr [JStr ''A'', JStr ''B'', JStr ''C'']))"
  let ?j = "JObj [(''state'', JStr ''pending''), (''data'', blank_list)]"
  have tok: "token patched_world = Some ''t0''"
    by (simp add: token_def patched_world_def with_token_def)
  have fetch: "fetch patched_world = Some ?f"
    by (simp add: patched_world_def)
  have "?f [] (get_request ''t0'' merge_args) = Resolved string_items_response"
    by (simp add: method_get_request)
  then have fi: "final_items ?f ''t0'' merge_args
      = ([get_request ''t0'' merge_args], Inr (Some (JArr [JStr ''A'', JStr ''B'', JStr ''C''])))"
    by (rule final_items_string_items)
  have answer: "?f [get_request ''t0'' merge_args] ?patch = Resolved patched_response"
    by (simp add: patch_request_def)
  have valid: "safeParse StateDataSchema (Some ?j) = Inr (Some ?j)"
    by (simp add: safeParse_def StateDataSchema_def NetworkListData_def blank_list_def
          parse.simps Let_def)
  have props: "get_prop (Some ?j) ''data'' = Inr (Some blank_list)"
    "get_prop (Some ?j) ''state'' = Inr (Some (JStr ''pending''))"
    by simp_all
  have respond: "update_respond patched_response
      = Inr (text_reply (''Successfully updated network list (State: pending).''
          @ NL @ NL @ stringify 0 blank_list))"
    using valid props
    by (simp add: update_respond_def patched_response_def ok_def and_then_def template_def
          JSON_stringify_def template_str_def del: stringify.simps get_prop.simps)
  have run: "update_execute patched_world merge_args
      = ([get_request ''t0'' merge_args, ?patch],
         Inr (text_reply (''Successfully updated network list (State: pending).''
           @ NL @ NL @ stringify 0 blank_list)))"
    using tok fetch fi answer respond by (simp add: update_execute_def Let_def)
  have rtext: "reply_text (update_execute patched_world merge_args)
      = ''Successfully updated network list (State: pending).'' @ NL @ NL
        @ stringify 0 blank_list"
    unfolding run by (simp add: reply_text_def text_reply_def)
  have absent: "\<not> sublist ''Unexpected response format from Azion API''
      (''Successfully updated network list (State: pending).'' @ NL @ NL
        @ stringify 0 blank_list)"
    by code_simp
  show ?thesis
    using string_items_mismatch run rtext absent by simp
qed

section \<open>The shape of every reply\<close>













end
